theory Spec2Isabelle
  imports Complex_Main
begin

section \<open>move\_basic: data model\<close>

text \<open>
  A shallow embedding of \<^verbatim>\<open>src/move_basic.cpp\<close>. The C++ \<^verbatim>\<open>double\<close>
  (and the \<^verbatim>\<open>float\<close> obstacle distances) are idealised as \<^typ>\<open>real\<close>,
  \<^verbatim>\<open>M_PI\<close> as \<^term>\<open>pi\<close>, \<^verbatim>\<open>ros::Time\<close> and
  \<^verbatim>\<open>ros::Duration\<close> as seconds in \<^typ>\<open>real\<close>. Everything a control
  tick reads from outside (transform lookups, collision checker, preempt flag, clock)
  is an explicit input of that tick.
\<close>

text \<open>The tunable members of \<^verbatim>\<open>class MoveBasic\<close> (lines 70-107).\<close>

record config =
  minTurningVelocity :: real
  maxTurningVelocity :: real
  angularAcceleration :: real
  angularTolerance :: real
  maxLateralVelocity :: real
  maxLinearVelocity :: real
  linearAcceleration :: real
  linearTolerance :: real
  lateralKp :: real
  lateralKi :: real
  lateralKd :: real
  linGain :: real
  rotGain :: real
  velThreshold :: real
  abortTimeoutSecs :: real
  obstacleWaitThreshold :: real
  forwardObstacleThreshold :: real
  localizationLatency :: real
  preferredPlanningFrame :: string
  alternatePlanningFrame :: string
  preferredDrivingFrame :: string
  alternateDrivingFrame :: string
  baseFrame :: string
  minSideDist :: real
  sideRecoverWeight :: real
  reverseWithoutTurningThreshold :: real

text \<open>The defaults of the constructor (lines 178-231).\<close>

definition default_config :: config where
  "default_config =
     \<lparr> minTurningVelocity = 2 / 100, maxTurningVelocity = 1,
       angularAcceleration = 3 / 10, angularTolerance = 1 / 100,
       maxLateralVelocity = 1 / 2, maxLinearVelocity = 1 / 2,
       linearAcceleration = 1 / 10, linearTolerance = 1 / 10,
       lateralKp = 2, lateralKi = 0, lateralKd = 20,
       linGain = 1, rotGain = 5 / 2, velThreshold = 1 / 10,
       abortTimeoutSecs = 5, obstacleWaitThreshold = 60,
       forwardObstacleThreshold = 1 / 2, localizationLatency = 1 / 2,
       preferredPlanningFrame = '''', alternatePlanningFrame = ''odom'',
       preferredDrivingFrame = ''map'', alternateDrivingFrame = ''odom'',
       baseFrame = ''base_footprint'', minSideDist = 3 / 10,
       sideRecoverWeight = 1, reverseWithoutTurningThreshold = 1 / 2 \<rparr>"

subsection \<open>Pose and frame utilities\<close>

text \<open>
  \<^verbatim>\<open>normalizeAngle\<close> (lines 146-154): two independent \<^verbatim>\<open>if\<close>
  statements on a reference parameter; the second tests the value the first one left.
\<close>

definition normalizeAngle :: "real \<Rightarrow> real" where
  "normalizeAngle angle =
     (let a1 = (if angle < - pi then angle + 2 * pi else angle)
      in if a1 > pi then a1 - 2 * pi else a1)"

text \<open>
  \<^verbatim>\<open>tf2::Vector3\<close> with its \<^verbatim>\<open>length()\<close>, the Euclidean norm of all
  three components.
\<close>

record vec3 =
  vx :: real
  vy :: real
  vz :: real

definition vec_length :: "vec3 \<Rightarrow> real" where
  "vec_length v = sqrt (vx v * vx v + vy v * vy v + vz v * vz v)"

text \<open>
  \<^verbatim>\<open>tf2::Transform\<close> belongs to the tf2 library, not to this repository: the
  transform type is a parameter \<open>'tf\<close> and the four library operations the source
  uses are passed in a record: \<^verbatim>\<open>operator*\<close>, \<^verbatim>\<open>getOrigin()\<close>, the yaw
  of \<^verbatim>\<open>getBasis().getRPY(roll, pitch, yaw)\<close>, and whether that yaw is NaN.
\<close>

record 'tf tf2 =
  tf_mul :: "'tf \<Rightarrow> 'tf \<Rightarrow> 'tf"
  tf_getOrigin :: "'tf \<Rightarrow> vec3"
  tf_getYaw :: "'tf \<Rightarrow> real"
  tf_yawIsNan :: "'tf \<Rightarrow> bool"

text \<open>
  The contents of the \<^verbatim>\<open>tf2_ros::Buffer\<close> at one instant:
  \<^verbatim>\<open>lookupTransform(to, from, ros::Time(0))\<close> either yields a transform or throws.
\<close>

type_synonym 'tf buffer = "string \<Rightarrow> string \<Rightarrow> 'tf option"

text \<open>\<^verbatim>\<open>getTransform\<close> (lines 266-278): the exception becomes \<open>None\<close>.\<close>

definition getTransform :: "'tf buffer \<Rightarrow> string \<Rightarrow> string \<Rightarrow> 'tf option" where
  "getTransform buf from to = buf to from"

text \<open>\<^verbatim>\<open>transformPose\<close> (lines 282-291).\<close>

definition transformPose ::
  "'tf tf2 \<Rightarrow> 'tf buffer \<Rightarrow> string \<Rightarrow> string \<Rightarrow> 'tf \<Rightarrow> 'tf option" where
  "transformPose L buf from to inp =
     (case getTransform buf from to of
        None \<Rightarrow> None
      | Some tf \<Rightarrow> Some (tf_mul L tf inp))"

text \<open>\<^verbatim>\<open>getPose\<close> (lines 159-167).\<close>

definition getPose :: "'tf tf2 \<Rightarrow> 'tf \<Rightarrow> real \<times> real \<times> real" where
  "getPose L tf = (let trans = tf_getOrigin L tf in (vx trans, vy trans, tf_getYaw L tf))"

text \<open>
  The C library's \<^verbatim>\<open>atan2(y, x)\<close> on the reals (signed zeros are idealised
  away): the angle of the point \<open>(x, y)\<close>, in \<open>(-\<pi>, \<pi>]\<close>.
\<close>

definition atan2 :: "real \<Rightarrow> real \<Rightarrow> real" where
  "atan2 y x =
     (if x > 0 then arctan (y / x)
      else if x < 0 then (if y \<ge> 0 then arctan (y / x) + pi else arctan (y / x) - pi)
      else if y > 0 then pi / 2
      else if y < 0 then - pi / 2
      else 0)"

text \<open>
  \<^verbatim>\<open>std::min(a, std::sqrt(x))\<close>, as both controllers write it. For a negative
  \<open>x\<close> the C++ square root is not a number, every comparison with it is false, and
  \<^verbatim>\<open>std::min\<close> returns its first argument; HOL's \<^term>\<open>sqrt\<close> is odd
  instead, so the case is written out.
\<close>

definition min_sqrt :: "real \<Rightarrow> real \<Rightarrow> real" where
  "min_sqrt a x = (if x < 0 then a else min a (sqrt x))"

subsection \<open>What a controller call leaves behind\<close>

text \<open>
  \<^verbatim>\<open>sendCmd(angular, linear)\<close> (lines 514-521) publishes a twist; a command is the
  pair \<open>(angular, linear)\<close>. \<^verbatim>\<open>abortGoal\<close> (lines 339-343) and
  \<^verbatim>\<open>setSucceeded\<close> are calls on the action server; they are logged in order.
\<close>

type_synonym cmd = "real \<times> real"

datatype abort_msg =
    InvalidOrientation
  | NoLocalizationForPlanning
  | NoPoseInGoalFrame
  | NoPoseInDrivingFrame
  | NoGoalPoseInDrivingFrame
  | NoPoseForRotation
  | NoPoseForLinear
  | ObstacleAbort
  | NoProgress

datatype server_call = SetAborted abort_msg | SetSucceeded

record outcome =
  ok :: bool
  cmds :: "cmd list"
  calls :: "server_call list"

definition emit :: "cmd \<Rightarrow> outcome \<Rightarrow> outcome" where
  "emit c r = r\<lparr>cmds := c # cmds r\<rparr>"

subsection \<open>Rotation controller\<close>

text \<open>What one tick of \<^verbatim>\<open>rotate\<close> reads from outside.\<close>

record 'tf rot_in =
  ri_tf :: "'tf buffer"
  ri_obstacle_angle :: "bool \<Rightarrow> real"
  ri_preempt :: bool

text \<open>
  The velocity of lines 585-587 is \<open>turning_velocity\<close>.
  The body of the loop of \<^verbatim>\<open>rotate\<close> after the pose lookup (lines 580-606),
  on the loop variables \<open>(success, done)\<close>; it returns the velocity handed to
  \<^verbatim>\<open>sendCmd\<close> and the new loop variables. The preempt test and the tolerance test
  are two consecutive \<^verbatim>\<open>if\<close> statements, not an \<^verbatim>\<open>if\<close>/\<^verbatim>\<open>else\<close> chain.
\<close>

definition turning_velocity :: "config \<Rightarrow> real \<Rightarrow> real" where
  "turning_velocity cfg remaining =
     max (minTurningVelocity cfg)
         (min (rotGain cfg * remaining)
              (min_sqrt (maxTurningVelocity cfg) (2 * angularAcceleration cfg * remaining)))"

definition rotate_body ::
  "config \<Rightarrow> real \<Rightarrow> real \<Rightarrow> (bool \<Rightarrow> real) \<Rightarrow> bool \<Rightarrow> bool \<times> bool \<Rightarrow> real \<times> bool \<times> bool" where
  "rotate_body cfg requestedYaw currentYaw obstacle_angle preempt st =
     (let (success, finished) = st;
          angleRemaining = normalizeAngle (requestedYaw - currentYaw);
          obstacle = obstacle_angle (angleRemaining > 0);
          remaining = min \<bar>angleRemaining\<bar> \<bar>obstacle\<bar>;
          velocity = turning_velocity cfg remaining;
          (velocity, success, finished) =
             (if preempt then (0, False, True) else (velocity, success, finished));
          (velocity, success, finished) =
             (if \<bar>angleRemaining\<bar> < angularTolerance cfg then (0, True, True)
              else (velocity, success, finished));
          reverse = (angleRemaining < 0);
          velocity = (if reverse then - velocity else velocity)
      in (velocity, success, finished))"

text \<open>
  The loop \<^verbatim>\<open>while (!done && ros::ok())\<close> (lines 568-610) over the ticks during
  which \<^verbatim>\<open>ros::ok()\<close> holds: when the list is used up, \<^verbatim>\<open>ros::ok()\<close> is false
  and the loop ends. A failed lookup aborts the goal and returns false at once.
\<close>

fun rotate_loop ::
  "'tf tf2 \<Rightarrow> config \<Rightarrow> string \<Rightarrow> real \<Rightarrow> bool \<times> bool \<Rightarrow> 'tf rot_in list \<Rightarrow> outcome" where
  "rotate_loop L cfg drivingFrame requestedYaw st [] =
     \<lparr>ok = fst st, cmds = [], calls = []\<rparr>"
| "rotate_loop L cfg drivingFrame requestedYaw st (inp # rest) =
     (if snd st then \<lparr>ok = fst st, cmds = [], calls = []\<rparr>
      else case getTransform (ri_tf inp) (baseFrame cfg) drivingFrame of
        None \<Rightarrow> \<lparr>ok = False, cmds = [], calls = [SetAborted NoPoseForRotation]\<rparr>
      | Some poseDriving \<Rightarrow>
          (let (x, y, currentYaw) = getPose L poseDriving;
               (velocity, st') = rotate_body cfg requestedYaw currentYaw
                                   (ri_obstacle_angle inp) (ri_preempt inp) st
           in emit (velocity, 0) (rotate_loop L cfg drivingFrame requestedYaw st' rest)))"

text \<open>
  \<^verbatim>\<open>rotate\<close> (lines 550-612): the buffer at entry and the ticks that follow.
  It is \<open>rotate_to\<close> here, \<open>rotate\<close> being a list function of HOL.
\<close>

definition rotate_to ::
  "'tf tf2 \<Rightarrow> config \<Rightarrow> real \<Rightarrow> string \<Rightarrow> 'tf buffer \<times> 'tf rot_in list \<Rightarrow> outcome" where
  "rotate_to L cfg yaw drivingFrame env =
     (case getTransform (fst env) (baseFrame cfg) drivingFrame of
        None \<Rightarrow> \<lparr>ok = False, cmds = [], calls = [SetAborted NoPoseForRotation]\<rparr>
      | Some poseDriving \<Rightarrow>
          (let (x, y, currentYaw) = getPose L poseDriving;
               requestedYaw = normalizeAngle (currentYaw + yaw)
           in rotate_loop L cfg drivingFrame requestedYaw (False, False) (snd env)))"

subsection \<open>Linear motion controller\<close>

text \<open>
  What one tick of \<^verbatim>\<open>moveLinear\<close> reads from outside: the tf buffer, the member
  \<^verbatim>\<open>forwardObstacleDist\<close> (written by \<^verbatim>\<open>run\<close>, lines 533-537, from
  \<^verbatim>\<open>obstacle_dist(true, ...)\<close>), the collision checker's
  \<^verbatim>\<open>obstacle_dist(forward, ...)\<close> as a function of its first argument, the preempt
  flag, and the two readings of \<^verbatim>\<open>ros::Time::now()\<close> a tick can make (one in the
  obstacle block, one in the progress block).
\<close>

record 'tf lin_in =
  li_tf :: "'tf buffer"
  li_forwardObstacleDist :: real
  li_obstacle_dist :: "bool \<Rightarrow> real"
  li_preempt :: bool
  li_now_obstacle :: real
  li_now_progress :: real

text \<open>
  The variables of \<^verbatim>\<open>moveLinear\<close> that live across ticks (lines 629-643), and the
  calls made on the action server so far. \<^verbatim>\<open>last\<close> and \<^verbatim>\<open>done\<close> are
  renamed: the first is a list function of HOL, the second a keyword.
\<close>

record lin_state =
  prevDistRemaining :: real
  pausingForObstacle :: bool
  last_time :: real
  obstacleTime :: real
  lateralIntegral :: real
  lateralError :: real
  prevLateralError :: real
  lateralDiff :: real
  success :: bool
  finished :: bool
  aborts :: "server_call list"

text \<open>
  Their values when the loop is entered (lines 629-643), given the requested distance
  and the clock; a default \<^verbatim>\<open>ros::Time\<close> is zero.
\<close>

definition lin_start :: "real \<Rightarrow> real \<Rightarrow> lin_state" where
  "lin_start requestedDistance now =
     \<lparr>prevDistRemaining = requestedDistance, pausingForObstacle = False,
      last_time = now, obstacleTime = 0, lateralIntegral = 0,
      lateralError = 0, prevLateralError = 0, lateralDiff = 0,
      success = False, finished = False, aborts = []\<rparr>"

text \<open>The PID block (lines 658-667), statement by statement.\<close>

definition lateral_pid :: "config \<Rightarrow> real \<Rightarrow> lin_state \<Rightarrow> real \<times> lin_state" where
  "lateral_pid cfg remaining_y s =
     (let s1 = s\<lparr>lateralDiff := lateralError s - prevLateralError s\<rparr>;
          s2 = s1\<lparr>lateralError := sideRecoverWeight cfg * remaining_y\<rparr>;
          s3 = s2\<lparr>prevLateralError := lateralError s2\<rparr>;
          s4 = s3\<lparr>lateralIntegral := lateralIntegral s3 + lateralError s3\<rparr>;
          rotation = lateralKp cfg * lateralError s4 + lateralKi cfg * lateralIntegral s4
                     + lateralKd cfg * lateralDiff s4;
          rotation = max (- maxLateralVelocity cfg) (min (maxLateralVelocity cfg) rotation)
      in (rotation, s4))"

text \<open>
  The obstacle distance of a tick (lines 682-689): the member
  \<^verbatim>\<open>forwardObstacleDist\<close>, unless \<^verbatim>\<open>requestedDistance < 0.0\<close>.
\<close>

definition sensed_obstacleDist :: "real \<Rightarrow> 'tf lin_in \<Rightarrow> real" where
  "sensed_obstacleDist requestedDistance inp =
     (if requestedDistance < 0 then li_obstacle_dist inp False
      else li_forwardObstacleDist inp)"

text \<open>The velocity of lines 691-692.\<close>

definition linear_velocity :: "config \<Rightarrow> real \<Rightarrow> real \<Rightarrow> real" where
  "linear_velocity cfg obstacleDist distRemaining =
     min (linGain cfg * min \<bar>obstacleDist\<bar> \<bar>distRemaining\<bar>)
         (min_sqrt (maxLinearVelocity cfg)
            (2 * linearAcceleration cfg * min \<bar>obstacleDist\<bar> \<bar>distRemaining\<bar>))"

text \<open>
  The four blocks that follow (lines 694-747) each read and write the local
  \<^verbatim>\<open>velocity\<close> and the loop variables; they are consecutive statements.
\<close>

definition obstacle_check ::
  "config \<Rightarrow> 'tf lin_in \<Rightarrow> real \<Rightarrow> real \<times> lin_state \<Rightarrow> real \<times> lin_state" where
  "obstacle_check cfg inp obstacleDist vs =
     (let (velocity, s) = vs;
          obstacleDetected = (obstacleDist < forwardObstacleThreshold cfg);
          (velocity, s) =
            (if obstacleDetected then
               (if \<not> pausingForObstacle s then
                  (0, s\<lparr>obstacleTime := li_now_obstacle inp, pausingForObstacle := True\<rparr>)
                else
                  (let waitTime = li_now_obstacle inp - obstacleTime s
                   in if waitTime > obstacleWaitThreshold cfg then
                        (0, s\<lparr>aborts := aborts s @ [SetAborted ObstacleAbort],
                               success := False, finished := True\<rparr>)
                      else (0, s)))
             else (velocity, s));
          s = (if \<not> obstacleDetected \<and> pausingForObstacle s
               then s\<lparr>pausingForObstacle := False\<rparr> else s)
      in (velocity, s))"

definition preempt_check :: "'tf lin_in \<Rightarrow> real \<times> lin_state \<Rightarrow> real \<times> lin_state" where
  "preempt_check inp vs =
     (let (velocity, s) = vs
      in if li_preempt inp then (0, s\<lparr>success := False, finished := True\<rparr>)
         else (velocity, s))"

definition progress_check ::
  "real \<Rightarrow> 'tf lin_in \<Rightarrow> real \<Rightarrow> real \<times> lin_state \<Rightarrow> real \<times> lin_state" where
  "progress_check abortTimeout inp distRemaining vs =
     (let (velocity, s) = vs
      in if distRemaining > prevDistRemaining s then
           (let s = s\<lparr>prevDistRemaining := distRemaining\<rparr>
            in if li_now_progress inp - last_time s > abortTimeout then
                 (0, s\<lparr>aborts := aborts s @ [SetAborted NoProgress],
                        success := False, finished := True\<rparr>)
               else (velocity, s))
         else (velocity, s\<lparr>last_time := li_now_progress inp\<rparr>))"

definition finish_check ::
  "config \<Rightarrow> real \<Rightarrow> real \<times> lin_state \<Rightarrow> real \<times> lin_state" where
  "finish_check cfg distRemaining vs =
     (let (velocity, s) = vs
      in if \<bar>velocity\<bar> < velThreshold cfg \<and> distRemaining < linearTolerance cfg then
           (0, s\<lparr>success := True, finished := True\<rparr>)
         else (velocity, s))"

text \<open>
  The body of the loop after the pose lookup (lines 654-753), given the origin of
  \<^verbatim>\<open>goalInBase\<close>; it returns the command of \<^verbatim>\<open>sendCmd(rotation, velocity)\<close>
  and the new loop variables.
\<close>

definition moveLinear_body ::
  "config \<Rightarrow> real \<Rightarrow> bool \<Rightarrow> real \<Rightarrow> 'tf lin_in \<Rightarrow> vec3 \<Rightarrow> lin_state \<Rightarrow> cmd \<times> lin_state" where
  "moveLinear_body cfg requestedDistance forward abortTimeout inp remaining s =
     (let distRemaining = sqrt (vx remaining * vx remaining + vy remaining * vy remaining);
          (rotation, s) = lateral_pid cfg (vy remaining) s;
          obstacleDist = sensed_obstacleDist requestedDistance inp;
          velocity = linear_velocity cfg obstacleDist distRemaining;
          vs = obstacle_check cfg inp obstacleDist (velocity, s);
          vs = preempt_check inp vs;
          vs = progress_check abortTimeout inp distRemaining vs;
          (velocity, s) = finish_check cfg distRemaining vs;
          velocity = (if \<not> forward then - velocity else velocity)
      in ((rotation, velocity), s))"

text \<open>
  The loop \<^verbatim>\<open>while (!done && ros::ok())\<close> (lines 645-755), as for the rotation. A
  failed lookup only warns and returns false.
\<close>

fun moveLinear_loop ::
  "'tf tf2 \<Rightarrow> config \<Rightarrow> string \<Rightarrow> 'tf \<Rightarrow> real \<Rightarrow> bool \<Rightarrow> real \<Rightarrow> lin_state
     \<Rightarrow> 'tf lin_in list \<Rightarrow> outcome" where
  "moveLinear_loop L cfg drivingFrame goalInDriving requestedDistance forward abortTimeout s [] =
     \<lparr>ok = success s, cmds = [], calls = aborts s\<rparr>"
| "moveLinear_loop L cfg drivingFrame goalInDriving requestedDistance forward abortTimeout s
       (inp # rest) =
     (if finished s then \<lparr>ok = success s, cmds = [], calls = aborts s\<rparr>
      else case getTransform (li_tf inp) drivingFrame (baseFrame cfg) of
        None \<Rightarrow> \<lparr>ok = False, cmds = [], calls = aborts s\<rparr>
      | Some poseDriving \<Rightarrow>
          (let goalInBase = tf_mul L poseDriving goalInDriving;
               remaining = tf_getOrigin L goalInBase;
               (c, s') = moveLinear_body cfg requestedDistance forward abortTimeout
                           inp remaining s
           in emit c (moveLinear_loop L cfg drivingFrame goalInDriving requestedDistance
                        forward abortTimeout s' rest)))"

text \<open>
  \<^verbatim>\<open>moveLinear\<close> (lines 616-757): the buffer and the clock at entry, and the ticks
  that follow. The only lookup at entry is \<^verbatim>\<open>drivingFrame\<close> to
  \<^verbatim>\<open>baseFrame\<close>, for the driving frame the caller passes.
\<close>

definition moveLinear ::
  "'tf tf2 \<Rightarrow> config \<Rightarrow> 'tf \<Rightarrow> string \<Rightarrow> 'tf buffer \<times> real \<times> 'tf lin_in list \<Rightarrow> outcome" where
  "moveLinear L cfg goalInDriving drivingFrame env =
     (let (buf, now, ticks) = env
      in case getTransform buf drivingFrame (baseFrame cfg) of
        None \<Rightarrow> \<lparr>ok = False, cmds = [], calls = [SetAborted NoPoseForLinear]\<rparr>
      | Some poseDriving \<Rightarrow>
          (let goalInBase = tf_mul L poseDriving goalInDriving;
               remaining = tf_getOrigin L goalInBase;
               forward = (vx remaining > 0);
               requestedDistance = vec_length remaining;
               abortTimeout = abortTimeoutSecs cfg
           in moveLinear_loop L cfg drivingFrame goalInDriving requestedDistance forward
                abortTimeout (lin_start requestedDistance now) ticks))"

subsection \<open>Goal execution\<close>

text \<open>The goal message: \<^verbatim>\<open>target_pose.pose\<close> and \<^verbatim>\<open>target_pose.header.frame_id\<close>.\<close>

record 'tf goal_msg =
  target_pose :: 'tf
  frame_id :: string

text \<open>
  What one call of \<^verbatim>\<open>executeAction\<close> reads from outside: the tf buffer while the
  path is planned (lines 361-472), and what each of the three controller calls reads.
\<close>

record 'tf exec_env =
  ee_tf :: "'tf buffer"
  ee_rot1 :: "'tf buffer \<times> 'tf rot_in list"
  ee_lin :: "'tf buffer \<times> real \<times> 'tf lin_in list"
  ee_rot2 :: "'tf buffer \<times> 'tf rot_in list"

text \<open>Lines 366-367: a leading slash of the frame id is dropped.\<close>

definition strip_slash :: "string \<Rightarrow> string" where
  "strip_slash frameId =
     (case frameId of
        [] \<Rightarrow> []
      | c # rest \<Rightarrow> if c = CHR ''/'' then rest else frameId)"

text \<open>
  The planning frame (lines 385-402): the goal's own frame when no preferred planning
  frame is configured, else the preferred one, else the alternate one.
\<close>

definition planning_resolution ::
  "'tf tf2 \<Rightarrow> config \<Rightarrow> 'tf buffer \<Rightarrow> string \<Rightarrow> 'tf \<Rightarrow> abort_msg + string \<times> 'tf" where
  "planning_resolution L cfg buf frameId goal =
     (if preferredPlanningFrame cfg = [] then Inr (frameId, goal)
      else case transformPose L buf frameId (preferredPlanningFrame cfg) goal of
        None \<Rightarrow>
          (case transformPose L buf frameId (alternatePlanningFrame cfg) goal of
             None \<Rightarrow> Inl NoLocalizationForPlanning
           | Some goalInPlanning \<Rightarrow> Inr (alternatePlanningFrame cfg, goalInPlanning))
      | Some goalInPlanning \<Rightarrow> Inr (preferredPlanningFrame cfg, goalInPlanning))"

text \<open>The driving frame (lines 434-448): the preferred one, else the alternate one.\<close>

definition driving_resolution ::
  "config \<Rightarrow> 'tf buffer \<Rightarrow> abort_msg + string \<times> 'tf" where
  "driving_resolution cfg buf =
     (case getTransform buf (preferredDrivingFrame cfg) (baseFrame cfg) of
        None \<Rightarrow>
          (case getTransform buf (alternateDrivingFrame cfg) (baseFrame cfg) of
             None \<Rightarrow> Inl NoPoseInDrivingFrame
           | Some currentDrivingBase \<Rightarrow> Inr (alternateDrivingFrame cfg, currentDrivingBase))
      | Some currentDrivingBase \<Rightarrow> Inr (preferredDrivingFrame cfg, currentDrivingBase))"

text \<open>Lines 463-467, on \<^verbatim>\<open>goalInBase.getOrigin()\<close>.\<close>

definition planar :: "vec3 \<Rightarrow> vec3" where
  "planar v = v\<lparr>vz := 0\<rparr>"

definition reverseWithoutTurning :: "config \<Rightarrow> vec3 \<Rightarrow> bool" where
  "reverseWithoutTurning cfg origin =
     (let linear_v = planar origin;
          dist = vec_length linear_v
      in reverseWithoutTurningThreshold cfg > dist \<and> vx linear_v < 0)"

text \<open>Lines 475-483: the heading handed to the initial rotation.\<close>

definition requested_heading :: "bool \<Rightarrow> vec3 \<Rightarrow> real" where
  "requested_heading reversing linear_v =
     (let requestedYaw = atan2 (vy linear_v) (vx linear_v)
      in if reversing then
           (if requestedYaw > 0 then - pi + requestedYaw else pi - requestedYaw)
         else requestedYaw)"

definition no_run :: outcome where
  "no_run = \<lparr>ok = True, cmds = [], calls = []\<rparr>"

definition then_run :: "outcome \<Rightarrow> outcome \<Rightarrow> outcome" where
  "then_run a b = \<lparr>ok = ok b, cmds = cmds a @ cmds b, calls = calls a @ calls b\<rparr>"

definition aborted :: "abort_msg \<Rightarrow> outcome" where
  "aborted m = \<lparr>ok = False, cmds = [], calls = [SetAborted m]\<rparr>"

text \<open>
  The local variables of \<^verbatim>\<open>executeAction\<close> that the three controller calls are
  made from, as they stand at line 484.
\<close>

record 'tf path_plan =
  pp_drivingFrame :: string
  pp_goalInDriving :: 'tf
  pp_linear :: vec3
  pp_reverseWithoutTurning :: bool
  pp_requestedYaw :: real
  pp_goalYaw :: real
  pp_yaw :: real

text \<open>
  \<^verbatim>\<open>executeAction\<close> up to line 484: every early return is an outcome on the
  left, also the immediate success of a goal within the linear tolerance (lines 474 and
  507); otherwise the plan. The published path and the log lines are left out.
\<close>

definition plan_goal ::
  "'tf tf2 \<Rightarrow> config \<Rightarrow> 'tf buffer \<Rightarrow> 'tf goal_msg \<Rightarrow> outcome + 'tf path_plan" where
  "plan_goal L cfg buf msg =
     (let goal = target_pose msg;
          frameId = strip_slash (frame_id msg)
      in if tf_yawIsNan L goal then Inl (aborted InvalidOrientation)
         else case planning_resolution L cfg buf frameId goal of
           Inl m \<Rightarrow> Inl (aborted m)
         | Inr (planningFrame, goalInPlanning) \<Rightarrow>
         (let (gx, gy, goalYaw) = getPose L goalInPlanning
          in case getTransform buf (baseFrame cfg) frameId of
            None \<Rightarrow> Inl (aborted NoPoseInGoalFrame)
          | Some poseFrameId \<Rightarrow>
          (let (x, y, yaw) = getPose L poseFrameId
           in case driving_resolution cfg buf of
             Inl m \<Rightarrow> Inl (aborted m)
           | Inr (drivingFrame, currentDrivingBase) \<Rightarrow>
           (case transformPose L buf frameId drivingFrame goal of
              None \<Rightarrow> Inl (aborted NoGoalPoseInDrivingFrame)
            | Some goalInDriving \<Rightarrow>
            (let goalInBase = tf_mul L currentDrivingBase goalInDriving;
                 linear_v = planar (tf_getOrigin L goalInBase);
                 dist = vec_length linear_v;
                 reversing = reverseWithoutTurning cfg (tf_getOrigin L goalInBase)
             in case transformPose L buf frameId (baseFrame cfg) goal of
               None \<Rightarrow> Inl \<lparr>ok = False, cmds = [], calls = []\<rparr>
             | Some goalInBase' \<Rightarrow>
                 if dist > linearTolerance cfg then
                   Inr \<lparr>pp_drivingFrame = drivingFrame, pp_goalInDriving = goalInDriving,
                        pp_linear = linear_v, pp_reverseWithoutTurning = reversing,
                        pp_requestedYaw = requested_heading reversing linear_v,
                        pp_goalYaw = goalYaw, pp_yaw = yaw\<rparr>
                 else Inl \<lparr>ok = True, cmds = [], calls = [SetSucceeded]\<rparr>)))))"

text \<open>
  Lines 485-507: initial rotation, linear portion, final rotation, each with an early
  return on failure; the driving frame is the one of the plan, for all three.
\<close>

definition execute_path ::
  "'tf tf2 \<Rightarrow> config \<Rightarrow> 'tf exec_env \<Rightarrow> 'tf path_plan \<Rightarrow> outcome" where
  "execute_path L cfg env p =
     (let drivingFrame = pp_drivingFrame p;
          requestedYaw = pp_requestedYaw p;
          r1 = (if \<bar>requestedYaw\<bar> > angularTolerance cfg
                then rotate_to L cfg requestedYaw drivingFrame (ee_rot1 env) else no_run)
      in if \<not> ok r1 then r1
         else
           (let r2 = then_run r1
                       (moveLinear L cfg (pp_goalInDriving p) drivingFrame (ee_lin env))
            in if \<not> ok r2 then r2
               else
                 (let finalYaw = pp_goalYaw p - (pp_yaw p + requestedYaw);
                      r3 = then_run r2
                             (if \<bar>finalYaw\<bar> > angularTolerance cfg
                              then rotate_to L cfg finalYaw drivingFrame (ee_rot2 env)
                              else no_run)
                  in if \<not> ok r3 then r3
                     else r3\<lparr>calls := calls r3 @ [SetSucceeded]\<rparr>)))"

text \<open>\<^verbatim>\<open>executeAction\<close> (lines 348-508).\<close>

definition executeAction ::
  "'tf tf2 \<Rightarrow> config \<Rightarrow> 'tf exec_env \<Rightarrow> 'tf goal_msg \<Rightarrow> outcome" where
  "executeAction L cfg env msg =
     (case plan_goal L cfg (ee_tf env) msg of
        Inl r \<Rightarrow> r
      | Inr p \<Rightarrow> execute_path L cfg env p)"

subsection \<open>The velocity profile as the specification words it\<close>

text \<open>
  The specification's \<open>speed\<close> function, from its section 4.3, to compare the two
  controllers with: \<open>clamp (min (gain * m) (sqrt (2 * acceleration * m)))
  minVelocity maxVelocity\<close> with \<open>m = min |remaining| |obstacleLimit|\<close>, where
  \<open>clamp x lo hi\<close> is written as the source writes its own clamp of the lateral
  rotation (line 666), \<open>max lo (min hi x)\<close>.
\<close>

definition clamp :: "real \<Rightarrow> real \<Rightarrow> real \<Rightarrow> real" where
  "clamp x lo hi = max lo (min hi x)"

definition spec_speed :: "real \<Rightarrow> real \<Rightarrow> real \<Rightarrow> real \<Rightarrow> real \<Rightarrow> real \<Rightarrow> real" where
  "spec_speed remaining obstacleLimit maxVelocity minVelocity gain acceleration =
     (let m = min \<bar>remaining\<bar> \<bar>obstacleLimit\<bar>
      in clamp (min (gain * m) (sqrt (2 * acceleration * m))) minVelocity maxVelocity)"

subsection \<open>A transform library to run the model on\<close>

text \<open>
  Rigid motions of the plane, with a height carried along: what tf2 computes for a robot
  that does not roll or pitch. The concrete runs below use it.
\<close>

record pose =
  px :: real
  py :: real
  pz :: real
  pyaw :: real

definition planar_tf2 :: "pose tf2" where
  "planar_tf2 =
     \<lparr> tf_mul = (\<lambda>a b.
         \<lparr> px = px a + cos (pyaw a) * px b - sin (pyaw a) * py b,
           py = py a + sin (pyaw a) * px b + cos (pyaw a) * py b,
           pz = pz a + pz b,
           pyaw = pyaw a + pyaw b \<rparr>),
       tf_getOrigin = (\<lambda>a. \<lparr>vx = px a, vy = py a, vz = pz a\<rparr>),
       tf_getYaw = pyaw,
       tf_yawIsNan = (\<lambda>a. False) \<rparr>"

definition at_xy :: "real \<Rightarrow> real \<Rightarrow> pose" where
  "at_xy x y = \<lparr>px = x, py = y, pz = 0, pyaw = 0\<rparr>"

text \<open>
  Tf buffers for the concrete runs: every frame coincides with every other; the same
  with every lookup that involves \<open>map\<close> failing; the same with every lookup that
  involves \<open>odom\<close> failing. And the default configuration with the reversing
  threshold raised to 2 m.
\<close>

definition frames_coincide :: "pose buffer" where
  "frames_coincide = (\<lambda>to from. Some (at_xy 0 0))"

definition map_lost :: "pose buffer" where
  "map_lost = (\<lambda>to from. if to = ''map'' \<or> from = ''map'' then None else Some (at_xy 0 0))"

definition odom_lost :: "pose buffer" where
  "odom_lost = (\<lambda>to from. if to = ''odom'' \<or> from = ''odom'' then None else Some (at_xy 0 0))"

definition wide_reverse :: config where
  "wide_reverse = default_config\<lparr>reverseWithoutTurningThreshold := 2\<rparr>"

subsection \<open>An environment that answers for one pair of frames only\<close>

text \<open>
  To state which lookups a controller call depends on: the buffer that answers as
  \<open>buf\<close> does for the two directions between the frames \<open>f\<close> and \<open>b\<close> and
  fails on every other lookup; and the same restriction on everything the three
  controller calls of a goal read, the buffer read while the path is planned left as it
  is.
\<close>

definition only_frames :: "string \<Rightarrow> string \<Rightarrow> 'tf buffer \<Rightarrow> 'tf buffer" where
  "only_frames f b buf =
     (\<lambda>to from. if (to = f \<and> from = b) \<or> (to = b \<and> from = f) then buf to from else None)"

definition rot_only ::
  "string \<Rightarrow> string \<Rightarrow> 'tf buffer \<times> 'tf rot_in list \<Rightarrow> 'tf buffer \<times> 'tf rot_in list" where
  "rot_only f b e =
     (only_frames f b (fst e), map (\<lambda>i. i\<lparr>ri_tf := only_frames f b (ri_tf i)\<rparr>) (snd e))"

definition lin_only ::
  "string \<Rightarrow> string \<Rightarrow> 'tf buffer \<times> real \<times> 'tf lin_in list
     \<Rightarrow> 'tf buffer \<times> real \<times> 'tf lin_in list" where
  "lin_only f b e =
     (only_frames f b (fst e), fst (snd e),
      map (\<lambda>i. i\<lparr>li_tf := only_frames f b (li_tf i)\<rparr>) (snd (snd e)))"

definition env_only :: "string \<Rightarrow> string \<Rightarrow> 'tf exec_env \<Rightarrow> 'tf exec_env" where
  "env_only f b env =
     env\<lparr>ee_rot1 := rot_only f b (ee_rot1 env), ee_lin := lin_only f b (ee_lin env),
         ee_rot2 := rot_only f b (ee_rot2 env)\<rparr>"

section \<open>Properties of the angle normalisation\<close>

lemma normalizeAngle_fixed:
  "- pi \<le> a \<Longrightarrow> a \<le> pi \<Longrightarrow> normalizeAngle a = a"
  by (simp add: normalizeAngle_def)

lemma normalizeAngle_cases:
  "- 3 * pi \<le> a \<Longrightarrow> a \<le> 3 * pi \<Longrightarrow>
     normalizeAngle a = a \<or> normalizeAngle a = a + 2 * pi \<or> normalizeAngle a = a - 2 * pi"
  by (simp add: normalizeAngle_def Let_def)

lemma normalizeAngle_range:
  assumes "- 3 * pi \<le> a" and "a \<le> 3 * pi"
  shows "- pi \<le> normalizeAngle a \<and> normalizeAngle a \<le> pi"
proof -
  have p: "0 < pi" by (rule pi_gt_zero)
  show ?thesis
  proof (cases "a < - pi")
    case True
    with assms p show ?thesis by (simp add: normalizeAngle_def Let_def)
  next
    case False
    with assms p show ?thesis by (simp add: normalizeAngle_def Let_def)
  qed
qed

text \<open>
  C7, as stated: for every input in \<open>[-3\<pi>, 3\<pi>]\<close> the result lies in the half-open
  interval \<open>(-\<pi>, \<pi>]\<close>. The input \<open>-\<pi>\<close> is neither below \<open>-\<pi>\<close> nor above
  \<open>\<pi>\<close>, so it is returned unchanged and the lower bound is attained.
\<close>

theorem normalizeAngle_half_open_counterexample:
  "- 3 * pi \<le> - pi \<and> - pi \<le> 3 * pi \<and> \<not> (- pi < normalizeAngle (- pi))"
proof -
  have p: "0 < pi" by (rule pi_gt_zero)
  then show ?thesis by (simp add: normalizeAngle_def)
qed

text \<open>
  C7, amended: for every input in \<open>[-3\<pi>, 3\<pi>]\<close> the result lies in the closed
  interval \<open>[-\<pi>, \<pi>]\<close>, it is the input shifted by \<open>2\<pi>\<close> at most once, and
  normalising it again changes nothing.
\<close>

theorem normalizeAngle_closed_range_idempotent:
  assumes "- 3 * pi \<le> a" and "a \<le> 3 * pi"
  shows "- pi \<le> normalizeAngle a \<and> normalizeAngle a \<le> pi
         \<and> (normalizeAngle a = a \<or> normalizeAngle a = a + 2 * pi
              \<or> normalizeAngle a = a - 2 * pi)
         \<and> normalizeAngle (normalizeAngle a) = normalizeAngle a"
proof -
  have r: "- pi \<le> normalizeAngle a \<and> normalizeAngle a \<le> pi"
    using assms by (rule normalizeAngle_range)
  have c: "normalizeAngle a = a \<or> normalizeAngle a = a + 2 * pi
             \<or> normalizeAngle a = a - 2 * pi"
    using assms by (rule normalizeAngle_cases)
  have i: "normalizeAngle (normalizeAngle a) = normalizeAngle a"
    using r by (simp add: normalizeAngle_fixed)
  from r c i show ?thesis by blast
qed

theorem normalizeAngle_closed_range_idempotent_witness:
  "- 3 * pi \<le> 2 * pi \<and> 2 * pi \<le> 3 * pi
   \<and> normalizeAngle (2 * pi) = 0
   \<and> normalizeAngle (normalizeAngle (2 * pi)) = normalizeAngle (2 * pi)"
proof -
  have p: "0 < pi" by (rule pi_gt_zero)
  have h1: "- 3 * pi \<le> 2 * pi" using p by simp
  have h2: "2 * pi \<le> 3 * pi" using p by simp
  have v: "normalizeAngle (2 * pi) = 0" using p by (simp add: normalizeAngle_def)
  from normalizeAngle_closed_range_idempotent [OF h1 h2] h1 h2 v show ?thesis by simp
qed

section \<open>Rotation controller: the speed floor\<close>

lemma turning_velocity_floor: "minTurningVelocity cfg \<le> turning_velocity cfg r"
  by (simp add: turning_velocity_def)

lemma rotate_body_running:
  assumes "\<not> preempt"
      and "\<not> \<bar>normalizeAngle (requestedYaw - currentYaw)\<bar> < angularTolerance cfg"
  shows "rotate_body cfg requestedYaw currentYaw oa preempt st =
     (let a = normalizeAngle (requestedYaw - currentYaw);
          v = turning_velocity cfg (min \<bar>a\<bar> \<bar>oa (a > 0)\<bar>)
      in (if a < 0 then - v else v, fst st, snd st))"
  using assms by (cases st) (simp add: rotate_body_def Let_def)

lemma rotate_body_stopped:
  assumes "preempt \<or> \<bar>normalizeAngle (requestedYaw - currentYaw)\<bar> < angularTolerance cfg"
  shows "rotate_body cfg requestedYaw currentYaw oa preempt st =
     (0, \<bar>normalizeAngle (requestedYaw - currentYaw)\<bar> < angularTolerance cfg, True)"
  using assms by (cases st) (auto simp add: rotate_body_def Let_def)

text \<open>
  C9, as stated, with the floor configured as 0: a quarter turn to go, no preempt, an
  angular clearance of zero. The tick is a running one and its command is zero, so the
  cap does bring the commanded speed to zero.
\<close>

theorem rotation_floor_zero_counterexample:
  "\<not> False
   \<and> \<not> \<bar>normalizeAngle (pi / 2 - 0)\<bar>
         < angularTolerance (default_config\<lparr>minTurningVelocity := 0\<rparr>)
   \<and> fst (rotate_body (default_config\<lparr>minTurningVelocity := 0\<rparr>) (pi / 2) 0 (\<lambda>d. 0)
            False (False, False)) = 0"
  using pi_ge_two
  by (simp add: rotate_body_def normalizeAngle_def turning_velocity_def min_sqrt_def
        default_config_def Let_def)

text \<open>
  C9, amended: on a tick of \<^verbatim>\<open>rotate\<close> with no preempt request and the remaining
  angle not below the angular tolerance, the magnitude of the angular command is at least
  \<open>minTurningVelocity\<close>, whatever angular clearance the collision checker reports
  (zero included); when \<open>minTurningVelocity\<close> is positive the command is therefore
  never zero.
\<close>

theorem rotation_speed_floor:
  assumes "\<not> preempt"
      and "\<not> \<bar>normalizeAngle (requestedYaw - currentYaw)\<bar> < angularTolerance cfg"
  shows "minTurningVelocity cfg
           \<le> \<bar>fst (rotate_body cfg requestedYaw currentYaw obstacle_angle preempt st)\<bar>
         \<and> (0 < minTurningVelocity cfg \<longrightarrow>
              fst (rotate_body cfg requestedYaw currentYaw obstacle_angle preempt st) \<noteq> 0)"
proof -
  define a where "a = normalizeAngle (requestedYaw - currentYaw)"
  define v where "v = turning_velocity cfg (min \<bar>a\<bar> \<bar>obstacle_angle (a > 0)\<bar>)"
  have f: "minTurningVelocity cfg \<le> v"
    unfolding v_def by (rule turning_velocity_floor)
  have e: "fst (rotate_body cfg requestedYaw currentYaw obstacle_angle preempt st)
             = (if a < 0 then - v else v)"
    using assms by (simp add: rotate_body_running Let_def a_def v_def)
  have "minTurningVelocity cfg \<le> \<bar>if a < 0 then - v else v\<bar>"
    using f by simp
  moreover have "0 < minTurningVelocity cfg \<longrightarrow> (if a < 0 then - v else v) \<noteq> 0"
    using f by simp
  ultimately show ?thesis using e by simp
qed

text \<open>
  The floor at work: a quarter turn to go, no preempt, and an angular clearance of zero;
  the command is the floor of the default configuration, \<open>0.02\<close>.
\<close>

theorem rotation_speed_floor_witness:
  "\<not> False
   \<and> \<not> \<bar>normalizeAngle (pi / 2 - 0)\<bar> < angularTolerance default_config
   \<and> fst (rotate_body default_config (pi / 2) 0 (\<lambda>d. 0) False (False, False)) = 2 / 100
   \<and> minTurningVelocity default_config
        \<le> \<bar>fst (rotate_body default_config (pi / 2) 0 (\<lambda>d. 0) False (False, False))\<bar>
   \<and> fst (rotate_body default_config (pi / 2) 0 (\<lambda>d. 0) False (False, False)) \<noteq> 0"
proof -
  have n: "normalizeAngle (pi / 2) = pi / 2"
    using pi_ge_two by (simp add: normalizeAngle_def)
  have h2: "\<not> \<bar>normalizeAngle (pi / 2 - 0)\<bar> < angularTolerance default_config"
    using pi_ge_two by (simp add: n default_config_def)
  have v: "fst (rotate_body default_config (pi / 2) 0 (\<lambda>d. 0) False (False, False)) = 2 / 100"
    using pi_ge_two
    by (simp add: rotate_body_def normalizeAngle_def turning_velocity_def min_sqrt_def
          default_config_def Let_def)
  have p: "0 < minTurningVelocity default_config"
    by (simp add: default_config_def)
  from rotation_speed_floor [of False "pi / 2" 0 default_config "\<lambda>d. 0" "(False, False)", OF _ h2]
    h2 v p
  show ?thesis by simp
qed

section \<open>Linear motion controller: the command of a tick\<close>

lemma lateral_pid_rotation:
  "fst (lateral_pid cfg y s) =
     max (- maxLateralVelocity cfg) (min (maxLateralVelocity cfg)
       (lateralKp cfg * (sideRecoverWeight cfg * y)
        + lateralKi cfg * (lateralIntegral s + sideRecoverWeight cfg * y)
        + lateralKd cfg * (lateralError s - prevLateralError s)))"
  by (simp add: lateral_pid_def Let_def)

lemma lateral_pid_flags:
  "finished (snd (lateral_pid cfg y s)) = finished s
   \<and> pausingForObstacle (snd (lateral_pid cfg y s)) = pausingForObstacle s
   \<and> success (snd (lateral_pid cfg y s)) = success s
   \<and> prevDistRemaining (snd (lateral_pid cfg y s)) = prevDistRemaining s
   \<and> last_time (snd (lateral_pid cfg y s)) = last_time s
   \<and> obstacleTime (snd (lateral_pid cfg y s)) = obstacleTime s
   \<and> aborts (snd (lateral_pid cfg y s)) = aborts s"
  by (simp add: lateral_pid_def Let_def)





lemma moveLinear_body_unfold:
  "moveLinear_body cfg rd fwd t inp r s =
     (let d = sqrt (vx r * vx r + vy r * vy r);
          p = lateral_pid cfg (vy r) s;
          od = sensed_obstacleDist rd inp;
          vs = finish_check cfg d (progress_check t inp d (preempt_check inp
                 (obstacle_check cfg inp od (linear_velocity cfg od d, snd p))))
      in ((fst p, if \<not> fwd then - fst vs else fst vs), snd vs))"
  by (simp add: moveLinear_body_def Let_def split_beta)

lemma moveLinear_body_angular:
  "fst (fst (moveLinear_body cfg rd fwd t inp r s)) = fst (lateral_pid cfg (vy r) s)"
  by (simp add: moveLinear_body_unfold Let_def)




section \<open>Linear motion controller: the derivative term\<close>

lemma lateral_pid_errors_equal:
  "lateralError (snd (lateral_pid cfg y s)) = prevLateralError (snd (lateral_pid cfg y s))"
  by (simp add: lateral_pid_def Let_def)

lemma obstacle_check_errors:
  "lateralError (snd (obstacle_check cfg inp od (v, s))) = lateralError s
   \<and> prevLateralError (snd (obstacle_check cfg inp od (v, s))) = prevLateralError s"
  by (simp add: obstacle_check_def Let_def)

lemma preempt_check_errors:
  "lateralError (snd (preempt_check inp vs)) = lateralError (snd vs)
   \<and> prevLateralError (snd (preempt_check inp vs)) = prevLateralError (snd vs)"
  by (cases vs) (simp add: preempt_check_def)

lemma progress_check_errors:
  "lateralError (snd (progress_check t inp d vs)) = lateralError (snd vs)
   \<and> prevLateralError (snd (progress_check t inp d vs)) = prevLateralError (snd vs)"
  by (cases vs) (simp add: progress_check_def Let_def)

lemma finish_check_errors:
  "lateralError (snd (finish_check cfg d vs)) = lateralError (snd vs)
   \<and> prevLateralError (snd (finish_check cfg d vs)) = prevLateralError (snd vs)"
  by (cases vs) (simp add: finish_check_def)

text \<open>
  After any tick the stored error and the stored previous error are equal, as they are
  when the loop is entered: line 659 subtracts them before line 660 computes the new
  error, so the difference it takes is zero on every tick.
\<close>

lemma moveLinear_body_errors_equal:
  "lateralError (snd (moveLinear_body cfg rd fwd t inp r s))
     = prevLateralError (snd (moveLinear_body cfg rd fwd t inp r s))"
  by (simp add: moveLinear_body_unfold Let_def finish_check_errors progress_check_errors
        preempt_check_errors obstacle_check_errors lateral_pid_errors_equal)

lemma lin_start_errors_equal:
  "lateralError (lin_start rd now) = prevLateralError (lin_start rd now)"
  by (simp add: lin_start_def)

lemma derivative_term_vanishes:
  assumes "lateralError s = prevLateralError s"
  shows "fst (fst (moveLinear_body cfg rd fwd t inp r s)) =
     max (- maxLateralVelocity cfg) (min (maxLateralVelocity cfg)
       (lateralKp cfg * (sideRecoverWeight cfg * vy r)
        + lateralKi cfg * (lateralIntegral s + sideRecoverWeight cfg * vy r)))"
  using assms by (simp add: moveLinear_body_angular lateral_pid_rotation)

text \<open>
  C3, at two consecutive ticks with the default gains (\<open>Kp = 2\<close>, \<open>Ki = 0\<close>,
  \<open>Kd = 20\<close>, clamp \<open>0.5\<close>): the lateral offset is 0.01 and then 0.02. The
  source emits 0.02 and then 0.04, that is \<open>Kp\<close> times the error alone; with the
  difference of consecutive errors the second tick would give
  \<open>2 * 0.02 + 20 * (0.02 - 0.01) = 0.24\<close>.
\<close>

theorem lateral_pid_without_derivative:
  "fst (lateral_pid default_config (1 / 100) (lin_start 1 0)) = 2 / 100
   \<and> fst (lateral_pid default_config (2 / 100)
            (snd (lateral_pid default_config (1 / 100) (lin_start 1 0)))) = 4 / 100
   \<and> lateralDiff (snd (lateral_pid default_config (2 / 100)
            (snd (lateral_pid default_config (1 / 100) (lin_start 1 0))))) = 0
   \<and> clamp (lateralKp default_config * (2 / 100) + lateralKi default_config * (3 / 100)
             + lateralKd default_config * (2 / 100 - 1 / 100))
        (- maxLateralVelocity default_config) (maxLateralVelocity default_config) = 24 / 100"
  by (simp add: lateral_pid_def lin_start_def default_config_def clamp_def Let_def)

section \<open>Linear motion controller: which obstacle distance a tick uses\<close>

lemma vec_length_nonneg: "0 \<le> vec_length v"
  by (simp add: vec_length_def)

text \<open>
  \<^verbatim>\<open>requestedDistance\<close> is a length, so the test of line 683 never holds and the
  member \<^verbatim>\<open>forwardObstacleDist\<close> is used on every tick of every call.
\<close>

lemma sensed_obstacleDist_forward:
  "sensed_obstacleDist (vec_length r) inp = li_forwardObstacleDist inp"
  using vec_length_nonneg [of r] by (simp add: sensed_obstacleDist_def)

lemmas run_defs =
  moveLinear_def getTransform_def planar_tf2_def at_xy_def vec_length_def lin_start_def
  moveLinear_body_def lateral_pid_def sensed_obstacleDist_def linear_velocity_def
  min_sqrt_def obstacle_check_def preempt_check_def progress_check_def finish_check_def
  default_config_def emit_def Let_def

text \<open>
  C1, at a goal 5 m straight behind the robot: the way ahead is clear for 10 m, the
  reverse-sensing distance is 0 m, under the threshold of 0.5 m. The tick does not pause:
  it commands full speed backwards, \<open>-0.5\<close>.
\<close>

theorem backward_move_uses_forward_distance:
  "moveLinear planar_tf2 default_config (at_xy (- 5) 0) ''odom''
     ((\<lambda>to from. Some (at_xy 0 0)), 0,
      [\<lparr>li_tf = (\<lambda>to from. Some (at_xy 0 0)), li_forwardObstacleDist = 10,
        li_obstacle_dist = (\<lambda>fwd. if fwd then 10 else 0), li_preempt = False,
        li_now_obstacle = 0, li_now_progress = 0\<rparr>])
   = \<lparr>ok = False, cmds = [(0, - 1 / 2)], calls = []\<rparr>"
  by (simp add: run_defs)

section \<open>Which exit wins on a tick\<close>

text \<open>
  C2, at three ticks. Rotation: a preempt request arrives on a tick whose remaining
  angle, 0.005, is inside the tolerance 0.01; the tick ends the call with success.
  Translation: a preempt request arrives 0.05 m from the goal; the call ends with
  success. Translation: an obstacle has been in the way for 100 s, past the 60 s limit,
  when the robot is at the goal; the goal is aborted and the call ends with success.
\<close>

theorem finish_overrides_preempt_and_abort:
  "rotate_body default_config (1 / 200) 0 (\<lambda>d. 10) True (False, False) = (0, True, True)
   \<and> moveLinear planar_tf2 default_config (at_xy 1 0) ''odom''
       ((\<lambda>to from. Some (at_xy 0 0)), 0,
        [\<lparr>li_tf = (\<lambda>to from. Some (at_xy (- 19 / 20) 0)), li_forwardObstacleDist = 10,
          li_obstacle_dist = (\<lambda>fwd. 10), li_preempt = True,
          li_now_obstacle = 0, li_now_progress = 0\<rparr>])
     = \<lparr>ok = True, cmds = [(0, 0)], calls = []\<rparr>
   \<and> moveLinear planar_tf2 default_config (at_xy 1 0) ''odom''
       ((\<lambda>to from. Some (at_xy 0 0)), 0,
        [\<lparr>li_tf = (\<lambda>to from. Some (at_xy 0 0)), li_forwardObstacleDist = 1 / 10,
          li_obstacle_dist = (\<lambda>fwd. 10), li_preempt = False,
          li_now_obstacle = 0, li_now_progress = 0\<rparr>,
         \<lparr>li_tf = (\<lambda>to from. Some (at_xy (- 1) 0)), li_forwardObstacleDist = 1 / 10,
          li_obstacle_dist = (\<lambda>fwd. 10), li_preempt = False,
          li_now_obstacle = 100, li_now_progress = 100\<rparr>])
     = \<lparr>ok = True, cmds = [(0, 0), (0, 0)], calls = [SetAborted ObstacleAbort]\<rparr>"
proof -
  have r: "rotate_body default_config (1 / 200) 0 (\<lambda>d. 10) True (False, False)
             = (0, True, True)"
    using pi_ge_two
    by (simp add: rotate_body_def normalizeAngle_def turning_velocity_def min_sqrt_def
          default_config_def Let_def)
  have q: "sqrt (1 / 400) = 1 / 20"
    using real_sqrt_abs [of "1 / 20"] by (simp add: power2_eq_square)
  have l: "moveLinear planar_tf2 default_config (at_xy 1 0) ''odom''
       ((\<lambda>to from. Some (at_xy 0 0)), 0,
        [\<lparr>li_tf = (\<lambda>to from. Some (at_xy (- 19 / 20) 0)), li_forwardObstacleDist = 10,
          li_obstacle_dist = (\<lambda>fwd. 10), li_preempt = True,
          li_now_obstacle = 0, li_now_progress = 0\<rparr>])
     = \<lparr>ok = True, cmds = [(0, 0)], calls = []\<rparr>"
    by (simp add: run_defs q)
  have o: "moveLinear planar_tf2 default_config (at_xy 1 0) ''odom''
       ((\<lambda>to from. Some (at_xy 0 0)), 0,
        [\<lparr>li_tf = (\<lambda>to from. Some (at_xy 0 0)), li_forwardObstacleDist = 1 / 10,
          li_obstacle_dist = (\<lambda>fwd. 10), li_preempt = False,
          li_now_obstacle = 0, li_now_progress = 0\<rparr>,
         \<lparr>li_tf = (\<lambda>to from. Some (at_xy (- 1) 0)), li_forwardObstacleDist = 1 / 10,
          li_obstacle_dist = (\<lambda>fwd. 10), li_preempt = False,
          li_now_obstacle = 100, li_now_progress = 100\<rparr>])
     = \<lparr>ok = True, cmds = [(0, 0), (0, 0)], calls = [SetAborted ObstacleAbort]\<rparr>"
    by (simp add: run_defs)
  from r l o show ?thesis by (intro conjI)
qed

section \<open>Linear motion controller: the no-progress timer\<close>

text \<open>
  What the progress block (lines 727-738) does to the loop variables: the stored distance
  only ever grows, and the clock is restarted on every tick that does not exceed it.
\<close>

lemma progress_check_finished:
  "finished (snd (progress_check t inp d (v, s))) =
     (finished s \<or> (d > prevDistRemaining s \<and> li_now_progress inp - last_time s > t))"
  by (simp add: progress_check_def Let_def)

lemma progress_check_prev:
  "prevDistRemaining (snd (progress_check t inp d (v, s))) = max (prevDistRemaining s) d"
  by (simp add: progress_check_def Let_def max_def)

lemma progress_check_last:
  "last_time (snd (progress_check t inp d (v, s))) =
     (if d > prevDistRemaining s then last_time s else li_now_progress inp)"
  by (simp add: progress_check_def Let_def)

text \<open>
  C4, at a call entered 10 m from the goal, with the default timeout of 5 s: the first
  tick finds the robot 5 m from the goal (time 0), the next two find it 6 m away (time
  3 s) and 7 m away (time 6 s). The distance has exceeded its best value, 5 m, for 6 s
  and has grown on every tick since; the call does not abort and keeps driving at 0.5.
\<close>

theorem no_abort_while_below_entry_distance:
  "moveLinear planar_tf2 default_config (at_xy 10 0) ''odom''
     ((\<lambda>to from. Some (at_xy 0 0)), 0,
      [\<lparr>li_tf = (\<lambda>to from. Some (at_xy (- 5) 0)), li_forwardObstacleDist = 5,
        li_obstacle_dist = (\<lambda>fwd. 5), li_preempt = False,
        li_now_obstacle = 0, li_now_progress = 0\<rparr>,
       \<lparr>li_tf = (\<lambda>to from. Some (at_xy (- 4) 0)), li_forwardObstacleDist = 5,
        li_obstacle_dist = (\<lambda>fwd. 5), li_preempt = False,
        li_now_obstacle = 3, li_now_progress = 3\<rparr>,
       \<lparr>li_tf = (\<lambda>to from. Some (at_xy (- 3) 0)), li_forwardObstacleDist = 5,
        li_obstacle_dist = (\<lambda>fwd. 5), li_preempt = False,
        li_now_obstacle = 6, li_now_progress = 6\<rparr>])
   = \<lparr>ok = False, cmds = [(0, 1 / 2), (0, 1 / 2), (0, 1 / 2)], calls = []\<rparr>"
  by (simp add: run_defs)

section \<open>The velocity profile of the two controllers\<close>

lemma min_sqrt_defined: "0 \<le> x \<Longrightarrow> min_sqrt a x = min a (sqrt x)"
  by (simp add: min_sqrt_def)

lemma min_sqrt_nonneg: "0 \<le> a \<Longrightarrow> 0 \<le> min_sqrt a x"
  by (simp add: min_sqrt_def)

lemma turning_velocity_spec:
  assumes "0 \<le> angularAcceleration cfg"
  shows "turning_velocity cfg (min \<bar>a\<bar> \<bar>ob\<bar>) =
     spec_speed a ob (maxTurningVelocity cfg) (minTurningVelocity cfg) (rotGain cfg)
       (angularAcceleration cfg)"
proof -
  have "0 \<le> 2 * angularAcceleration cfg * min \<bar>a\<bar> \<bar>ob\<bar>" using assms by simp
  then show ?thesis
    by (simp add: turning_velocity_def min_sqrt_defined spec_speed_def clamp_def Let_def
          min.left_commute min.commute)
qed

lemma linear_velocity_nonneg:
  assumes "0 \<le> linGain cfg" and "0 \<le> maxLinearVelocity cfg"
  shows "0 \<le> linear_velocity cfg od d"
proof -
  have "0 \<le> linGain cfg * min \<bar>od\<bar> \<bar>d\<bar>" using assms(1) by simp
  then show ?thesis using assms(2) by (simp add: linear_velocity_def min_sqrt_nonneg)
qed

lemma linear_velocity_spec:
  assumes "0 \<le> linGain cfg" and "0 \<le> maxLinearVelocity cfg"
      and "0 \<le> linearAcceleration cfg"
  shows "linear_velocity cfg od d =
     spec_speed d od (maxLinearVelocity cfg) 0 (linGain cfg) (linearAcceleration cfg)"
proof -
  have n: "0 \<le> 2 * linearAcceleration cfg * min \<bar>od\<bar> \<bar>d\<bar>" using assms(3) by simp
  have "linear_velocity cfg od d = max 0 (linear_velocity cfg od d)"
    using linear_velocity_nonneg [OF assms(1,2)] by simp
  also have "\<dots> = spec_speed d od (maxLinearVelocity cfg) 0 (linGain cfg)
                       (linearAcceleration cfg)"
    using n
    by (simp add: linear_velocity_def min_sqrt_defined spec_speed_def clamp_def Let_def
          min.left_commute min.commute)
  finally show ?thesis .
qed

lemma obstacle_check_velocity:
  "fst (obstacle_check cfg inp od (v, s)) = (if od < forwardObstacleThreshold cfg then 0 else v)"
  by (simp add: obstacle_check_def Let_def)

lemma preempt_check_velocity:
  "fst (preempt_check inp vs) = (if li_preempt inp then 0 else fst vs)"
  by (cases vs) (simp add: preempt_check_def)

lemma progress_check_velocity:
  "fst (progress_check t inp d vs) =
     (if d > prevDistRemaining (snd vs) \<and> li_now_progress inp - last_time (snd vs) > t
      then 0 else fst vs)"
  by (cases vs) (simp add: progress_check_def Let_def)

lemma finish_check_velocity:
  "fst (finish_check cfg d vs) =
     (if \<bar>fst vs\<bar> < velThreshold cfg \<and> d < linearTolerance cfg then 0 else fst vs)"
  by (cases vs) (simp add: finish_check_def)

lemma obstacle_check_progress_fields:
  "prevDistRemaining (snd (obstacle_check cfg inp od (v, s))) = prevDistRemaining s
   \<and> last_time (snd (obstacle_check cfg inp od (v, s))) = last_time s"
  by (simp add: obstacle_check_def Let_def)

lemma preempt_check_progress_fields:
  "prevDistRemaining (snd (preempt_check inp vs)) = prevDistRemaining (snd vs)
   \<and> last_time (snd (preempt_check inp vs)) = last_time (snd vs)"
  by (cases vs) (simp add: preempt_check_def)

text \<open>The linear component of a tick's command, as the chain of the four overrides.\<close>

lemma moveLinear_body_linear:
  "snd (fst (moveLinear_body cfg rd fwd t inp r s)) =
     (let d = sqrt (vx r * vx r + vy r * vy r);
          od = sensed_obstacleDist rd inp;
          v1 = (if od < forwardObstacleThreshold cfg then 0 else linear_velocity cfg od d);
          v2 = (if li_preempt inp then 0 else v1);
          v3 = (if d > prevDistRemaining s \<and> li_now_progress inp - last_time s > t
                then 0 else v2);
          v4 = (if \<bar>v3\<bar> < velThreshold cfg \<and> d < linearTolerance cfg then 0 else v3)
      in if \<not> fwd then - v4 else v4)"
  by (simp only: moveLinear_body_unfold Let_def fst_conv snd_conv finish_check_velocity
        progress_check_velocity preempt_check_velocity obstacle_check_velocity
        preempt_check_progress_fields obstacle_check_progress_fields lateral_pid_flags)

lemma moveLinear_body_linear_running:
  assumes "\<not> sensed_obstacleDist rd inp < forwardObstacleThreshold cfg"
      and "\<not> li_preempt inp"
      and "\<not> (sqrt (vx r * vx r + vy r * vy r) > prevDistRemaining s
               \<and> li_now_progress inp - last_time s > t)"
      and "\<not> (\<bar>linear_velocity cfg (sensed_obstacleDist rd inp)
                  (sqrt (vx r * vx r + vy r * vy r))\<bar> < velThreshold cfg
               \<and> sqrt (vx r * vx r + vy r * vy r) < linearTolerance cfg)"
  shows "\<bar>snd (fst (moveLinear_body cfg rd fwd t inp r s))\<bar> =
           \<bar>linear_velocity cfg (sensed_obstacleDist rd inp)
              (sqrt (vx r * vx r + vy r * vy r))\<bar>"
proof -
  have c1: "(sensed_obstacleDist rd inp < forwardObstacleThreshold cfg) = False"
    using assms(1) by simp
  have c2: "li_preempt inp = False"
    using assms(2) by simp
  have c3: "(sqrt (vx r * vx r + vy r * vy r) > prevDistRemaining s
               \<and> li_now_progress inp - last_time s > t) = False"
    using assms(3) by blast
  have c4: "(\<bar>linear_velocity cfg (sensed_obstacleDist rd inp)
                  (sqrt (vx r * vx r + vy r * vy r))\<bar> < velThreshold cfg
               \<and> sqrt (vx r * vx r + vy r * vy r) < linearTolerance cfg) = False"
    using assms(4) by blast
  have "snd (fst (moveLinear_body cfg rd fwd t inp r s)) =
      (if \<not> fwd
       then - linear_velocity cfg (sensed_obstacleDist rd inp)
                (sqrt (vx r * vx r + vy r * vy r))
       else linear_velocity cfg (sensed_obstacleDist rd inp)
              (sqrt (vx r * vx r + vy r * vy r)))"
    by (simp only: moveLinear_body_linear Let_def c1 c2 c3 c4 if_False)
  then show ?thesis by simp
qed

lemma moveLinear_body_linear_stopped:
  assumes "sensed_obstacleDist rd inp < forwardObstacleThreshold cfg
      \<or> li_preempt inp
      \<or> (sqrt (vx r * vx r + vy r * vy r) > prevDistRemaining s
               \<and> li_now_progress inp - last_time s > t)
      \<or> (\<bar>linear_velocity cfg (sensed_obstacleDist rd inp)
                  (sqrt (vx r * vx r + vy r * vy r))\<bar> < velThreshold cfg
               \<and> sqrt (vx r * vx r + vy r * vy r) < linearTolerance cfg)"
  shows "snd (fst (moveLinear_body cfg rd fwd t inp r s)) = 0"
proof -
  define d where "d = sqrt (vx r * vx r + vy r * vy r)"
  define od where "od = sensed_obstacleDist rd inp"
  define v where "v = linear_velocity cfg od d"
  define v1 where "v1 = (if od < forwardObstacleThreshold cfg then 0 else v)"
  define v2 where "v2 = (if li_preempt inp then 0 else v1)"
  define v3 where "v3 = (if d > prevDistRemaining s \<and> li_now_progress inp - last_time s > t
                then 0 else v2)"
  define v4 where "v4 = (if \<bar>v3\<bar> < velThreshold cfg \<and> d < linearTolerance cfg then 0 else v3)"
  have e: "snd (fst (moveLinear_body cfg rd fwd t inp r s)) = (if \<not> fwd then - v4 else v4)"
    by (simp only: moveLinear_body_linear Let_def v4_def v3_def v2_def v1_def v_def od_def d_def)
  have a: "od < forwardObstacleThreshold cfg \<or> li_preempt inp
      \<or> (d > prevDistRemaining s \<and> li_now_progress inp - last_time s > t)
      \<or> (\<bar>v\<bar> < velThreshold cfg \<and> d < linearTolerance cfg)"
    using assms by (simp only: d_def od_def v_def)
  have "v4 = 0"
  proof (cases "v3 = 0")
    case True
    then show ?thesis by (simp add: v4_def)
  next
    case False
    then have "v3 = v" and "\<not> od < forwardObstacleThreshold cfg" and "\<not> li_preempt inp"
      and "\<not> (d > prevDistRemaining s \<and> li_now_progress inp - last_time s > t)"
      by (auto simp add: v3_def v2_def v1_def split: if_splits)
    with a show ?thesis by (auto simp add: v4_def)
  qed
  with e show ?thesis by simp
qed

text \<open>
  C6, as stated, on two ticks with the default configuration. A rotation tick with no
  angle left: the command is 0, the profile gives its floor 0.02. A translation tick
  5 m from the goal with an obstacle 0.05 m ahead: the command is 0, the profile gives
  0.05.
\<close>

theorem speed_profile_every_tick_counterexample:
  "\<bar>fst (rotate_body default_config 0 0 (\<lambda>d. 10) False (False, False))\<bar> = 0
   \<and> spec_speed (normalizeAngle (0 - 0)) 10 (maxTurningVelocity default_config)
        (minTurningVelocity default_config) (rotGain default_config)
        (angularAcceleration default_config) = 2 / 100
   \<and> \<bar>snd (fst (moveLinear_body default_config 5 True 5
          \<lparr>li_tf = (\<lambda>to from. Some (at_xy 0 0)), li_forwardObstacleDist = 1 / 20,
           li_obstacle_dist = (\<lambda>fwd. 1 / 20), li_preempt = False,
           li_now_obstacle = 0, li_now_progress = 0\<rparr>
          \<lparr>vx = 5, vy = 0, vz = 0\<rparr> (lin_start 5 0)))\<bar> = 0
   \<and> spec_speed 5 (1 / 20) (maxLinearVelocity default_config) 0 (linGain default_config)
        (linearAcceleration default_config) = 1 / 20"
proof -
  have q: "sqrt (1 / 100) = 1 / 10"
    using real_sqrt_abs [of "1 / 10"] by (simp add: power2_eq_square)
  have a: "\<bar>fst (rotate_body default_config 0 0 (\<lambda>d. 10) False (False, False))\<bar> = 0"
    using pi_ge_two
    by (simp add: rotate_body_def normalizeAngle_def turning_velocity_def min_sqrt_def
          default_config_def Let_def)
  have b: "spec_speed (normalizeAngle (0 - 0)) 10 (maxTurningVelocity default_config)
        (minTurningVelocity default_config) (rotGain default_config)
        (angularAcceleration default_config) = 2 / 100"
    using pi_ge_two
    by (simp add: spec_speed_def clamp_def normalizeAngle_def default_config_def Let_def)
  have c: "\<bar>snd (fst (moveLinear_body default_config 5 True 5
          \<lparr>li_tf = (\<lambda>to from. Some (at_xy 0 0)), li_forwardObstacleDist = 1 / 20,
           li_obstacle_dist = (\<lambda>fwd. 1 / 20), li_preempt = False,
           li_now_obstacle = 0, li_now_progress = 0\<rparr>
          \<lparr>vx = 5, vy = 0, vz = 0\<rparr> (lin_start 5 0)))\<bar> = 0"
    by (simp add: moveLinear_body_linear_stopped sensed_obstacleDist_def default_config_def)
  have d: "spec_speed 5 (1 / 20) (maxLinearVelocity default_config) 0 (linGain default_config)
        (linearAcceleration default_config) = 1 / 20"
    by (simp add: spec_speed_def clamp_def default_config_def Let_def q)
  from a b c d show ?thesis by (intro conjI)
qed

text \<open>
  C6, amended: with non-negative floor, gains, accelerations and linear speed limit, the
  magnitude of the commanded speed equals the profile on every tick on which no stop
  fires, and the command is zero on every tick on which one does. For the rotation the
  stops are the preempt request and the angular tolerance; for the translation they are
  the obstacle threshold, the preempt request, the no-progress abort and the finish
  test. The rotation uses the angular gain, acceleration, floor and limit; the
  translation the linear gain, acceleration, floor 0 and limit.
\<close>

theorem speed_profile_between_stops:
  assumes "0 \<le> minTurningVelocity cfg" and "0 \<le> angularAcceleration cfg"
      and "0 \<le> linGain cfg" and "0 \<le> maxLinearVelocity cfg"
      and "0 \<le> linearAcceleration cfg"
  shows "(let a = normalizeAngle (requestedYaw - currentYaw);
              v = spec_speed a (obstacle_angle (a > 0)) (maxTurningVelocity cfg)
                    (minTurningVelocity cfg) (rotGain cfg) (angularAcceleration cfg);
              c = fst (rotate_body cfg requestedYaw currentYaw obstacle_angle preempt st)
          in if preempt \<or> \<bar>a\<bar> < angularTolerance cfg then c = 0 else \<bar>c\<bar> = v)
       \<and> (let d = sqrt (vx remaining * vx remaining + vy remaining * vy remaining);
              od = sensed_obstacleDist requestedDistance inp;
              v = spec_speed d od (maxLinearVelocity cfg) 0 (linGain cfg)
                    (linearAcceleration cfg);
              c = snd (fst (moveLinear_body cfg requestedDistance forward abortTimeout
                              inp remaining s))
          in if od < forwardObstacleThreshold cfg \<or> li_preempt inp
                \<or> (d > prevDistRemaining s \<and> li_now_progress inp - last_time s > abortTimeout)
                \<or> (\<bar>v\<bar> < velThreshold cfg \<and> d < linearTolerance cfg)
             then c = 0 else \<bar>c\<bar> = v)"
proof -
  define a where "a = normalizeAngle (requestedYaw - currentYaw)"
  define va where "va = spec_speed a (obstacle_angle (a > 0)) (maxTurningVelocity cfg)
                    (minTurningVelocity cfg) (rotGain cfg) (angularAcceleration cfg)"
  define ca where "ca = fst (rotate_body cfg requestedYaw currentYaw obstacle_angle preempt st)"
  have tv: "turning_velocity cfg (min \<bar>a\<bar> \<bar>obstacle_angle (a > 0)\<bar>) = va"
    unfolding va_def using assms(2) by (rule turning_velocity_spec)
  have rot: "if preempt \<or> \<bar>a\<bar> < angularTolerance cfg then ca = 0 else \<bar>ca\<bar> = va"
  proof (cases "preempt \<or> \<bar>a\<bar> < angularTolerance cfg")
    case True
    then have "ca = 0" unfolding ca_def a_def by (simp add: rotate_body_stopped)
    with True show ?thesis by simp
  next
    case False
    then have np: "\<not> preempt"
      and nt: "\<not> \<bar>normalizeAngle (requestedYaw - currentYaw)\<bar> < angularTolerance cfg"
      by (simp_all add: a_def)
    have "ca = (if a < 0 then - turning_velocity cfg (min \<bar>a\<bar> \<bar>obstacle_angle (a > 0)\<bar>)
                else turning_velocity cfg (min \<bar>a\<bar> \<bar>obstacle_angle (a > 0)\<bar>))"
      unfolding ca_def a_def
      by (simp only: rotate_body_running [OF np nt] Let_def fst_conv)
    then have "ca = (if a < 0 then - va else va)"
      by (simp only: tv)
    moreover have "0 \<le> va"
      using turning_velocity_floor [of cfg "min \<bar>a\<bar> \<bar>obstacle_angle (a > 0)\<bar>"] assms(1)
      by (simp add: tv)
    ultimately have "\<bar>ca\<bar> = va" by simp
    with False show ?thesis by simp
  qed
  define d where "d = sqrt (vx remaining * vx remaining + vy remaining * vy remaining)"
  define od where "od = sensed_obstacleDist requestedDistance inp"
  define vl where "vl = spec_speed d od (maxLinearVelocity cfg) 0 (linGain cfg)
                    (linearAcceleration cfg)"
  define cl where "cl = snd (fst (moveLinear_body cfg requestedDistance forward abortTimeout
                              inp remaining s))"
  have lv: "linear_velocity cfg od d = vl"
    unfolding vl_def using assms(3,4,5) by (rule linear_velocity_spec)
  have nn: "0 \<le> vl"
    using linear_velocity_nonneg [OF assms(3,4), of od d] by (simp add: lv)
  have lin: "if od < forwardObstacleThreshold cfg \<or> li_preempt inp
                \<or> (d > prevDistRemaining s \<and> li_now_progress inp - last_time s > abortTimeout)
                \<or> (\<bar>vl\<bar> < velThreshold cfg \<and> d < linearTolerance cfg)
             then cl = 0 else \<bar>cl\<bar> = vl"
  proof (cases "od < forwardObstacleThreshold cfg \<or> li_preempt inp
                \<or> (d > prevDistRemaining s \<and> li_now_progress inp - last_time s > abortTimeout)
                \<or> (\<bar>vl\<bar> < velThreshold cfg \<and> d < linearTolerance cfg)")
    case True
    then have "sensed_obstacleDist requestedDistance inp < forwardObstacleThreshold cfg
      \<or> li_preempt inp
      \<or> (sqrt (vx remaining * vx remaining + vy remaining * vy remaining) > prevDistRemaining s
               \<and> li_now_progress inp - last_time s > abortTimeout)
      \<or> (\<bar>linear_velocity cfg (sensed_obstacleDist requestedDistance inp)
                  (sqrt (vx remaining * vx remaining + vy remaining * vy remaining))\<bar>
             < velThreshold cfg
           \<and> sqrt (vx remaining * vx remaining + vy remaining * vy remaining)
               < linearTolerance cfg)"
      unfolding lv [symmetric] od_def d_def .
    then have "cl = 0"
      unfolding cl_def by (rule moveLinear_body_linear_stopped)
    with True show ?thesis by simp
  next
    case False
    then have n: "\<not> od < forwardObstacleThreshold cfg" "\<not> li_preempt inp"
        "\<not> (d > prevDistRemaining s \<and> li_now_progress inp - last_time s > abortTimeout)"
        "\<not> (\<bar>linear_velocity cfg od d\<bar> < velThreshold cfg \<and> d < linearTolerance cfg)"
      unfolding lv by blast+
    have "\<bar>cl\<bar> = \<bar>linear_velocity cfg od d\<bar>"
      unfolding cl_def od_def d_def
      by (rule moveLinear_body_linear_running [OF n [unfolded od_def d_def]])
    with nn have e: "\<bar>cl\<bar> = vl" by (simp add: lv)
    show ?thesis by (simp only: if_not_P [OF False] e)
  qed
  from rot lin show ?thesis
    by (simp only: Let_def a_def va_def ca_def d_def od_def vl_def cl_def) 
qed

text \<open>
  The amended statement at work with the default configuration: a rotation tick a quarter
  turn from its target with 10 rad of clearance, and a translation tick 5 m from the goal
  with 10 m of clearance, whose command is the speed limit 0.5.
\<close>

theorem speed_profile_between_stops_witness:
  "0 \<le> minTurningVelocity default_config \<and> 0 \<le> angularAcceleration default_config
   \<and> 0 \<le> linGain default_config \<and> 0 \<le> maxLinearVelocity default_config
   \<and> 0 \<le> linearAcceleration default_config
   \<and> \<not> \<bar>normalizeAngle (pi / 2 - 0)\<bar> < angularTolerance default_config
   \<and> \<bar>fst (rotate_body default_config (pi / 2) 0 (\<lambda>d. 10) False (False, False))\<bar>
        = spec_speed (pi / 2) 10 1 (2 / 100) (5 / 2) (3 / 10)
   \<and> \<bar>snd (fst (moveLinear_body default_config 5 True 5
          \<lparr>li_tf = (\<lambda>to from. Some (at_xy 0 0)), li_forwardObstacleDist = 10,
           li_obstacle_dist = (\<lambda>fwd. 10), li_preempt = False,
           li_now_obstacle = 0, li_now_progress = 0\<rparr>
          \<lparr>vx = 5, vy = 0, vz = 0\<rparr> (lin_start 5 0)))\<bar> = 1 / 2"
proof -
  define inp :: "pose lin_in" where "inp =
          \<lparr>li_tf = (\<lambda>to from. Some (at_xy 0 0)), li_forwardObstacleDist = 10,
           li_obstacle_dist = (\<lambda>fwd. 10), li_preempt = False,
           li_now_obstacle = 0, li_now_progress = 0\<rparr>"
  define r where "r = \<lparr>vx = 5, vy = 0, vz = 0\<rparr>"
  have h: "0 \<le> minTurningVelocity default_config" "0 \<le> angularAcceleration default_config"
    "0 \<le> linGain default_config" "0 \<le> maxLinearVelocity default_config"
    "0 \<le> linearAcceleration default_config"
    by (simp_all add: default_config_def)
  have n: "normalizeAngle (pi / 2) = pi / 2"
    using pi_ge_two by (simp add: normalizeAngle_def)
  have t: "\<not> \<bar>normalizeAngle (pi / 2 - 0)\<bar> < angularTolerance default_config"
    using pi_ge_two by (simp add: n default_config_def)
  note T = speed_profile_between_stops [OF h, where requestedYaw = "pi / 2"
      and currentYaw = 0 and obstacle_angle = "\<lambda>d. 10" and preempt = False
      and st = "(False, False)" and remaining = r and requestedDistance = 5 and inp = inp
      and forward = True and abortTimeout = 5 and s = "lin_start 5 0"]
  note T1 = conjunct1 [OF T] and T2 = conjunct2 [OF T]
  have n': "normalizeAngle (pi / 2 - 0) = pi / 2"
    using n by simp
  have c: "\<not> (False \<or> \<bar>pi / 2\<bar> < angularTolerance default_config)"
    using t by (simp add: n)
  have f: "maxTurningVelocity default_config = 1" "minTurningVelocity default_config = 2 / 100"
    "rotGain default_config = 5 / 2" "angularAcceleration default_config = 3 / 10"
    by (simp_all add: default_config_def)
  have R: "\<bar>fst (rotate_body default_config (pi / 2) 0 (\<lambda>d. 10) False (False, False))\<bar>
        = spec_speed (pi / 2) 10 1 (2 / 100) (5 / 2) (3 / 10)"
    using T1 by (simp only: Let_def if_not_P [OF c] n' f)
  have d5: "sqrt (vx r * vx r + vy r * vy r) = 5"
    by (simp add: r_def)
  have od10: "sensed_obstacleDist 5 inp = 10"
    by (simp add: sensed_obstacleDist_def inp_def)
  have p: "spec_speed 5 10 (maxLinearVelocity default_config) 0 (linGain default_config)
             (linearAcceleration default_config) = 1 / 2"
    by (simp add: spec_speed_def clamp_def default_config_def)
  have nc: "\<not> (10 < forwardObstacleThreshold default_config \<or> li_preempt inp
        \<or> (5 > prevDistRemaining (lin_start 5 0)
            \<and> li_now_progress inp - last_time (lin_start 5 0) > 5)
        \<or> (\<bar>1 / 2\<bar> < velThreshold default_config \<and> 5 < linearTolerance default_config))"
    by (simp add: default_config_def inp_def lin_start_def)
  have L: "\<bar>snd (fst (moveLinear_body default_config 5 True 5 inp r (lin_start 5 0)))\<bar> = 1 / 2"
    using T2 by (simp only: Let_def d5 od10 p if_not_P [OF nc])
  from h t R L show ?thesis by (simp only: inp_def r_def simp_thms)
qed


section \<open>Goal execution: the driving frame\<close>

lemma moveLinear_no_pose:
  "getTransform buf f (baseFrame cfg) = None \<Longrightarrow>
     moveLinear L cfg g f (buf, now, ticks) = aborted NoPoseForLinear"
  by (simp add: moveLinear_def aborted_def)

lemma rotate_loop_calls:
  "SetSucceeded \<notin> set (calls (rotate_loop L cfg f ry st ticks))"
proof (induction ticks arbitrary: st)
  case Nil
  show ?case by simp
next
  case (Cons inp rest)
  show ?case
  proof (cases "getTransform (ri_tf inp) (baseFrame cfg) f")
    case None
    then show ?thesis by simp
  next
    case (Some p)
    then show ?thesis using Cons.IH
      by (simp add: emit_def Let_def split_beta)
  qed
qed

lemma rotate_to_calls: "SetSucceeded \<notin> set (calls (rotate_to L cfg yaw f env))"
  by (cases "getTransform (fst env) (baseFrame cfg) f")
     (simp_all add: rotate_to_def rotate_loop_calls Let_def split_beta)

lemma execute_path_no_pose:
  assumes "getTransform (fst (ee_lin env)) (pp_drivingFrame p) (baseFrame cfg) = None"
  shows "\<not> ok (execute_path L cfg env p)
         \<and> SetSucceeded \<notin> set (calls (execute_path L cfg env p))"
proof -
  obtain buf now ticks where e: "ee_lin env = (buf, now, ticks)" by (cases "ee_lin env")
  with assms have m: "moveLinear L cfg (pp_goalInDriving p) (pp_drivingFrame p) (ee_lin env)
       = aborted NoPoseForLinear"
    by (simp add: moveLinear_no_pose)
  define r1 where "r1 = (if \<bar>pp_requestedYaw p\<bar> > angularTolerance cfg
                then rotate_to L cfg (pp_requestedYaw p) (pp_drivingFrame p) (ee_rot1 env)
                else no_run)"
  have nosucc: "SetSucceeded \<notin> set (calls r1)"
    by (simp add: r1_def rotate_to_calls no_run_def)
  show ?thesis
  proof (cases "ok r1")
    case False
    then have "execute_path L cfg env p = r1"
      by (simp add: execute_path_def r1_def Let_def)
    with False nosucc show ?thesis by simp
  next
    case True
    then have "execute_path L cfg env p = then_run r1 (aborted NoPoseForLinear)"
      by (simp add: execute_path_def r1_def [symmetric] Let_def m then_run_def aborted_def)
    with nosucc show ?thesis by (simp add: then_run_def aborted_def)
  qed
qed

lemma plan_goal_fields:
  assumes "plan_goal L cfg buf msg = Inr p"
  shows "\<exists>origin b. pp_linear p = planar origin
           \<and> pp_reverseWithoutTurning p = reverseWithoutTurning cfg origin
           \<and> pp_requestedYaw p = requested_heading (pp_reverseWithoutTurning p) (pp_linear p)
           \<and> driving_resolution cfg buf = Inr (pp_drivingFrame p, b)"
  using assms
  by (auto simp add: plan_goal_def Let_def split_beta
           split: if_splits sum.splits option.splits prod.splits)

lemmas plan_defs =
  plan_goal_def strip_slash_def planning_resolution_def getPose_def getTransform_def
  transformPose_def driving_resolution_def planar_tf2_def at_xy_def planar_def
  vec_length_def reverseWithoutTurning_def requested_heading_def default_config_def Let_def

lemma atan2_ahead: "atan2 0 1 = 0"
  by (simp add: atan2_def)

text \<open>
  A goal 1 m straight ahead, given in \<open>odom\<close>, while \<open>map\<close> cannot be looked up:
  the plan drives in \<open>odom\<close> and needs no initial rotation.
\<close>

lemma plan_while_map_lost:
  "plan_goal planar_tf2 default_config map_lost \<lparr>target_pose = at_xy 1 0, frame_id = ''odom''\<rparr>
   = Inr \<lparr>pp_drivingFrame = ''odom'', pp_goalInDriving = at_xy 1 0,
          pp_linear = \<lparr>vx = 1, vy = 0, vz = 0\<rparr>, pp_reverseWithoutTurning = False,
          pp_requestedYaw = 0, pp_goalYaw = 0, pp_yaw = 0\<rparr>"
  by (simp add: plan_defs map_lost_def atan2_ahead)

text \<open>
  C5, as stated, on that goal: \<open>map\<close> is unavailable when the goal starts, so the
  alternate frame \<open>odom\<close> is chosen. When the translation starts \<open>map\<close> has
  recovered and \<open>odom\<close> is lost. A resolution made again there would take the
  preferred frame; the call looks up \<open>odom\<close> only and the goal is aborted.
\<close>

theorem driving_frame_resolved_again_counterexample:
  "driving_resolution default_config map_lost = Inr (''odom'', at_xy 0 0)
   \<and> getTransform odom_lost (preferredDrivingFrame default_config) (baseFrame default_config)
       = Some (at_xy 0 0)
   \<and> executeAction planar_tf2 default_config
       \<lparr>ee_tf = map_lost, ee_rot1 = (map_lost, []), ee_lin = (odom_lost, 0, []),
        ee_rot2 = (odom_lost, [])\<rparr>
       \<lparr>target_pose = at_xy 1 0, frame_id = ''odom''\<rparr>
     = \<lparr>ok = False, cmds = [], calls = [SetAborted NoPoseForLinear]\<rparr>"
proof -
  have d: "driving_resolution default_config map_lost = Inr (''odom'', at_xy 0 0)"
    by (simp add: driving_resolution_def getTransform_def map_lost_def default_config_def)
  have g: "getTransform odom_lost (preferredDrivingFrame default_config)
             (baseFrame default_config) = Some (at_xy 0 0)"
    by (simp add: getTransform_def odom_lost_def default_config_def)
  have m: "moveLinear planar_tf2 default_config (at_xy 1 0) ''odom'' (odom_lost, 0, [])
             = aborted NoPoseForLinear"
    by (rule moveLinear_no_pose) (simp add: getTransform_def odom_lost_def default_config_def)
  have tol: "angularTolerance default_config = 1 / 100"
    by (simp add: default_config_def)
  have "executeAction planar_tf2 default_config
       \<lparr>ee_tf = map_lost, ee_rot1 = (map_lost, []), ee_lin = (odom_lost, 0, []),
        ee_rot2 = (odom_lost, [])\<rparr>
       \<lparr>target_pose = at_xy 1 0, frame_id = ''odom''\<rparr>
     = \<lparr>ok = False, cmds = [], calls = [SetAborted NoPoseForLinear]\<rparr>"
    by (simp add: executeAction_def plan_while_map_lost execute_path_def Let_def no_run_def then_run_def
          m aborted_def tol)
  with d g show ?thesis by (intro conjI)
qed

text \<open>
  The controller calls look up the transforms between the driving frame they are given
  and the base frame, and nothing else: restricting every buffer they read to that pair of
  frames changes nothing.
\<close>

lemma getTransform_only_frames:
  "getTransform (only_frames f b buf) f b = getTransform buf f b"
  "getTransform (only_frames f b buf) b f = getTransform buf b f"
  by (simp_all add: getTransform_def only_frames_def)

lemma rotate_loop_only:
  "rotate_loop L cfg f ry st (map (\<lambda>i. i\<lparr>ri_tf := only_frames f (baseFrame cfg) (ri_tf i)\<rparr>) ticks)
     = rotate_loop L cfg f ry st ticks"
proof (induction ticks arbitrary: st)
  case Nil
  show ?case by simp
next
  case (Cons inp rest)
  show ?case
    by (simp add: getTransform_only_frames Cons.IH Let_def split_beta
             split: option.splits)
qed

lemma rotate_to_only:
  "rotate_to L cfg yaw f (rot_only f (baseFrame cfg) e) = rotate_to L cfg yaw f e"
  by (simp add: rotate_to_def rot_only_def getTransform_only_frames rotate_loop_only
        Let_def split_beta split: option.splits)

lemma sensed_obstacleDist_tf:
  "sensed_obstacleDist rd (inp\<lparr>li_tf := x\<rparr>) = sensed_obstacleDist rd inp"
  by (simp add: sensed_obstacleDist_def)

lemma obstacle_check_tf:
  "obstacle_check cfg (inp\<lparr>li_tf := x\<rparr>) od vs = obstacle_check cfg inp od vs"
  by (cases vs) (simp add: obstacle_check_def Let_def)

lemma preempt_check_tf:
  "preempt_check (inp\<lparr>li_tf := x\<rparr>) vs = preempt_check inp vs"
  by (cases vs) (simp add: preempt_check_def)

lemma progress_check_tf:
  "progress_check t (inp\<lparr>li_tf := x\<rparr>) d vs = progress_check t inp d vs"
  by (cases vs) (simp add: progress_check_def Let_def)

lemma moveLinear_body_tf:
  "moveLinear_body cfg rd fwd t (inp\<lparr>li_tf := x\<rparr>) r s = moveLinear_body cfg rd fwd t inp r s"
  by (simp only: moveLinear_body_def sensed_obstacleDist_tf obstacle_check_tf
        preempt_check_tf progress_check_tf)

lemma moveLinear_loop_only:
  "moveLinear_loop L cfg f g rd fwd t s
      (map (\<lambda>i. i\<lparr>li_tf := only_frames f (baseFrame cfg) (li_tf i)\<rparr>) ticks)
     = moveLinear_loop L cfg f g rd fwd t s ticks"
proof (induction ticks arbitrary: s)
  case Nil
  show ?case by simp
next
  case (Cons inp rest)
  show ?case
    by (simp add: getTransform_only_frames moveLinear_body_tf Cons.IH Let_def split_beta
             split: option.splits)
qed

lemma moveLinear_only:
  "moveLinear L cfg g f (lin_only f (baseFrame cfg) e) = moveLinear L cfg g f e"
  by (simp add: moveLinear_def lin_only_def getTransform_only_frames moveLinear_loop_only
        split_beta Let_def split: option.splits)

lemma execute_path_only:
  "execute_path L cfg (env_only (pp_drivingFrame p) (baseFrame cfg) env) p
     = execute_path L cfg env p"
  by (simp add: execute_path_def env_only_def rotate_to_only moveLinear_only Let_def)

lemma plan_goal_planning:
  assumes "plan_goal L cfg buf msg = Inr p"
  shows "\<exists>pf g. planning_resolution L cfg buf (strip_slash (frame_id msg)) (target_pose msg)
                  = Inr (pf, g)
               \<and> pp_goalYaw p = tf_getYaw L g"
  using assms
  by (auto simp add: plan_goal_def getPose_def Let_def split_beta
           split: if_splits sum.splits option.splits prod.splits)

text \<open>
  C5, amended: the preferred/alternate driving-frame resolution is performed once, when
  the goal starts, and not again at the start of the translation phase. The controller
  calls that follow depend on the tf buffer only through the transforms between the
  driving frame chosen then and the base, so a driving frame that was unavailable at goal
  start and recovers later is not used, and the goal fails when the chosen frame cannot be
  looked up at the start of the translation. The planning-frame resolution happens only
  once, before the path is computed: the goal yaw of the plan is the one it gives on the
  buffer read at goal start, and no later lookup of another frame changes the outcome.
\<close>

theorem frames_resolved_once_at_goal_start:
  assumes "plan_goal L cfg (ee_tf env) msg = Inr p"
  shows "(\<exists>b. driving_resolution cfg (ee_tf env) = Inr (pp_drivingFrame p, b))
         \<and> (\<exists>pf g. planning_resolution L cfg (ee_tf env) (strip_slash (frame_id msg))
                       (target_pose msg) = Inr (pf, g)
                    \<and> pp_goalYaw p = tf_getYaw L g)
         \<and> executeAction L cfg (env_only (pp_drivingFrame p) (baseFrame cfg) env) msg
             = executeAction L cfg env msg
         \<and> (getTransform (fst (ee_lin env)) (pp_drivingFrame p) (baseFrame cfg) = None
              \<longrightarrow> \<not> ok (executeAction L cfg env msg)
                  \<and> SetSucceeded \<notin> set (calls (executeAction L cfg env msg)))"
proof -
  have a: "\<exists>b. driving_resolution cfg (ee_tf env) = Inr (pp_drivingFrame p, b)"
    using plan_goal_fields [OF assms] by blast
  have b: "\<exists>pf g. planning_resolution L cfg (ee_tf env) (strip_slash (frame_id msg))
                       (target_pose msg) = Inr (pf, g)
                    \<and> pp_goalYaw p = tf_getYaw L g"
    using assms by (rule plan_goal_planning)
  have e: "executeAction L cfg env msg = execute_path L cfg env p"
    using assms by (simp add: executeAction_def)
  have t: "ee_tf (env_only (pp_drivingFrame p) (baseFrame cfg) env) = ee_tf env"
    by (simp add: env_only_def)
  have e': "executeAction L cfg (env_only (pp_drivingFrame p) (baseFrame cfg) env) msg
          = execute_path L cfg (env_only (pp_drivingFrame p) (baseFrame cfg) env) p"
    using assms by (simp add: executeAction_def t)
  have c: "executeAction L cfg (env_only (pp_drivingFrame p) (baseFrame cfg) env) msg
             = executeAction L cfg env msg"
    by (simp only: e e' execute_path_only)
  have d: "getTransform (fst (ee_lin env)) (pp_drivingFrame p) (baseFrame cfg) = None
              \<longrightarrow> \<not> ok (executeAction L cfg env msg)
                  \<and> SetSucceeded \<notin> set (calls (executeAction L cfg env msg))"
    using execute_path_no_pose [of env p cfg L] by (simp add: e)
  from a b c d show ?thesis by (intro conjI)
qed

text \<open>
  The amended statement on the run above: the translation finds \<open>odom\<close> lost and the
  goal fails, with or without the recovered \<open>map\<close> in the buffers.
\<close>

theorem frames_resolved_once_at_goal_start_witness:
  "plan_goal planar_tf2 default_config map_lost
       \<lparr>target_pose = at_xy 1 0, frame_id = ''odom''\<rparr>
     = Inr \<lparr>pp_drivingFrame = ''odom'', pp_goalInDriving = at_xy 1 0,
          pp_linear = \<lparr>vx = 1, vy = 0, vz = 0\<rparr>, pp_reverseWithoutTurning = False,
          pp_requestedYaw = 0, pp_goalYaw = 0, pp_yaw = 0\<rparr>
   \<and> getTransform odom_lost ''odom'' (baseFrame default_config) = None
   \<and> \<not> ok (executeAction planar_tf2 default_config
       \<lparr>ee_tf = map_lost, ee_rot1 = (map_lost, []), ee_lin = (odom_lost, 0, []),
        ee_rot2 = (odom_lost, [])\<rparr>
       \<lparr>target_pose = at_xy 1 0, frame_id = ''odom''\<rparr>)
   \<and> executeAction planar_tf2 default_config
       (env_only ''odom'' (baseFrame default_config)
          \<lparr>ee_tf = map_lost, ee_rot1 = (map_lost, []), ee_lin = (odom_lost, 0, []),
           ee_rot2 = (odom_lost, [])\<rparr>)
       \<lparr>target_pose = at_xy 1 0, frame_id = ''odom''\<rparr>
     = executeAction planar_tf2 default_config
       \<lparr>ee_tf = map_lost, ee_rot1 = (map_lost, []), ee_lin = (odom_lost, 0, []),
        ee_rot2 = (odom_lost, [])\<rparr>
       \<lparr>target_pose = at_xy 1 0, frame_id = ''odom''\<rparr>"
proof -
  define env where "env = \<lparr>ee_tf = map_lost, ee_rot1 = (map_lost, []),
        ee_lin = (odom_lost, 0, []), ee_rot2 = (odom_lost, [])\<rparr>"
  define p where "p = \<lparr>pp_drivingFrame = ''odom'', pp_goalInDriving = at_xy 1 0,
          pp_linear = \<lparr>vx = 1, vy = 0, vz = 0\<rparr>, pp_reverseWithoutTurning = False,
          pp_requestedYaw = 0, pp_goalYaw = 0, pp_yaw = 0\<rparr>"
  have h1: "plan_goal planar_tf2 default_config (ee_tf env)
       \<lparr>target_pose = at_xy 1 0, frame_id = ''odom''\<rparr> = Inr p"
    by (simp add: env_def p_def plan_while_map_lost)
  have n: "getTransform odom_lost ''odom'' (baseFrame default_config) = None"
    by (simp add: getTransform_def odom_lost_def)
  have h2: "getTransform (fst (ee_lin env)) (pp_drivingFrame p) (baseFrame default_config) = None"
    by (simp add: env_def p_def n)
  have f: "pp_drivingFrame p = ''odom''" by (simp add: p_def)
  from frames_resolved_once_at_goal_start [OF h1] h2 plan_while_map_lost n f
  show ?thesis by (simp add: env_def)
qed

section \<open>Goal execution: reversing without turning\<close>

lemma planar_length: "vec_length (planar v) = sqrt (vx v * vx v + vy v * vy v)"
  by (simp add: planar_def vec_length_def)

lemma reverseWithoutTurning_iff:
  "reverseWithoutTurning cfg origin =
     (sqrt (vx origin * vx origin + vy origin * vy origin) < reverseWithoutTurningThreshold cfg
      \<and> vx origin < 0)"
  by (simp add: reverseWithoutTurning_def Let_def planar_length) (simp add: planar_def)

lemma atan2_behind_left: "atan2 1 (- 1) = 3 * pi / 4"
  by (simp add: atan2_def arctan_minus arctan_one)

lemma sqrt2_upper: "sqrt 2 < 2"
  by (rule real_less_lsqrt) simp_all

lemma sqrt2_lower: "1 / 10 < sqrt 2"
  by (rule real_less_rsqrt) (simp add: power2_eq_square)

lemma plan_behind_left:
  "plan_goal planar_tf2 wide_reverse frames_coincide
      \<lparr>target_pose = at_xy (- 1) 1, frame_id = ''odom''\<rparr>
   = Inr \<lparr>pp_drivingFrame = ''map'', pp_goalInDriving = at_xy (- 1) 1,
          pp_linear = \<lparr>vx = - 1, vy = 1, vz = 0\<rparr>, pp_reverseWithoutTurning = True,
          pp_requestedYaw = - (pi / 4), pp_goalYaw = 0, pp_yaw = 0\<rparr>"
  using sqrt2_upper sqrt2_lower
  by (simp add: plan_defs wide_reverse_def frames_coincide_def atan2_behind_left)

lemma rotation_behind_left:
  "rotate_to planar_tf2 wide_reverse (- (pi / 4)) ''map''
     (frames_coincide,
      [\<lparr>ri_tf = frames_coincide, ri_obstacle_angle = (\<lambda>d. 10), ri_preempt = False\<rparr>])
   = \<lparr>ok = False, cmds = [(- turning_velocity wide_reverse (pi / 4), 0)], calls = []\<rparr>"
proof -
  have tol: "angularTolerance wide_reverse = 1 / 100" "baseFrame wide_reverse = ''base_footprint''"
    by (simp_all add: wide_reverse_def default_config_def)
  show ?thesis
    using pi_ge_two pi_less_4
    by (simp add: rotate_to_def getTransform_def getPose_def planar_tf2_def at_xy_def
        frames_coincide_def rotate_body_def normalizeAngle_def emit_def tol Let_def)
qed

lemma atan2_behind_right: "atan2 (- 1) (- 1) = - (3 * pi / 4)"
  by (simp add: atan2_def arctan_one)

lemma plan_behind_right:
  "plan_goal planar_tf2 wide_reverse frames_coincide
      \<lparr>target_pose = at_xy (- 1) (- 1), frame_id = ''odom''\<rparr>
   = Inr \<lparr>pp_drivingFrame = ''map'', pp_goalInDriving = at_xy (- 1) (- 1),
          pp_linear = \<lparr>vx = - 1, vy = - 1, vz = 0\<rparr>, pp_reverseWithoutTurning = True,
          pp_requestedYaw = 7 * pi / 4, pp_goalYaw = 0, pp_yaw = 0\<rparr>"
  using sqrt2_upper sqrt2_lower
  by (simp add: plan_defs wide_reverse_def frames_coincide_def atan2_behind_right)

lemma rotation_behind_right:
  "rotate_to planar_tf2 wide_reverse (7 * pi / 4) ''map''
     (frames_coincide,
      [\<lparr>ri_tf = frames_coincide, ri_obstacle_angle = (\<lambda>d. 10), ri_preempt = False\<rparr>])
   = \<lparr>ok = False, cmds = [(- turning_velocity wide_reverse (pi / 4), 0)], calls = []\<rparr>"
proof -
  have tol: "angularTolerance wide_reverse = 1 / 100" "baseFrame wide_reverse = ''base_footprint''"
    by (simp_all add: wide_reverse_def default_config_def)
  have n: "normalizeAngle (7 * pi / 4) = - (pi / 4)"
    using pi_gt_zero by (simp add: normalizeAngle_def Let_def)
  have b: "\<not> pi < - (pi / 4)" "\<not> - (pi / 4) < - pi"
    using pi_gt_zero by linarith+
  have n2: "normalizeAngle (- (pi / 4)) = - (pi / 4)"
    by (simp only: normalizeAngle_def Let_def b if_False)
  show ?thesis
    using pi_ge_two pi_less_4
    by (simp add: rotate_to_def getTransform_def getPose_def planar_tf2_def at_xy_def
        frames_coincide_def rotate_body_def n n2 emit_def tol Let_def)
qed


text \<open>
  C8, with the reversing threshold at 2 m and a goal 1 m behind and 1 m to the right of
  the robot, heading \<open>-3\<pi>/4\<close>: the robot reverses without turning and the heading
  handed to the rotation is \<open>\<pi> - (-3\<pi>/4) = 7\<pi>/4\<close>, which \<^verbatim>\<open>rotate\<close>
  normalises to \<open>-\<pi>/4\<close>. That is the target the goal 1 m behind and 1 m to the
  \<^emph>\<open>left\<close> gets (there from the other branch, \<open>3\<pi>/4 - \<pi>\<close>), and the first
  command of the two runs is the same. Once the robot has turned by \<open>-\<pi>/4\<close> the goal
  behind and to the right lies at \<open>(0, - sqrt 2)\<close> in the base frame: abeam, not behind.
\<close>

theorem reverse_heading_behind_right_not_away:
  "plan_goal planar_tf2 wide_reverse frames_coincide
      \<lparr>target_pose = at_xy (- 1) (- 1), frame_id = ''odom''\<rparr>
     = Inr \<lparr>pp_drivingFrame = ''map'', pp_goalInDriving = at_xy (- 1) (- 1),
          pp_linear = \<lparr>vx = - 1, vy = - 1, vz = 0\<rparr>, pp_reverseWithoutTurning = True,
          pp_requestedYaw = 7 * pi / 4, pp_goalYaw = 0, pp_yaw = 0\<rparr>
   \<and> normalizeAngle (0 + 7 * pi / 4) = - (pi / 4)
   \<and> executeAction planar_tf2 wide_reverse
       \<lparr>ee_tf = frames_coincide,
        ee_rot1 = (frames_coincide,
          [\<lparr>ri_tf = frames_coincide, ri_obstacle_angle = (\<lambda>d. 10), ri_preempt = False\<rparr>]),
        ee_lin = (frames_coincide, 0, []), ee_rot2 = (frames_coincide, [])\<rparr>
       \<lparr>target_pose = at_xy (- 1) (- 1), frame_id = ''odom''\<rparr>
     = \<lparr>ok = False, cmds = [(- turning_velocity wide_reverse (pi / 4), 0)], calls = []\<rparr>
   \<and> executeAction planar_tf2 wide_reverse
       \<lparr>ee_tf = frames_coincide,
        ee_rot1 = (frames_coincide,
          [\<lparr>ri_tf = frames_coincide, ri_obstacle_angle = (\<lambda>d. 10), ri_preempt = False\<rparr>]),
        ee_lin = (frames_coincide, 0, []), ee_rot2 = (frames_coincide, [])\<rparr>
       \<lparr>target_pose = at_xy (- 1) 1, frame_id = ''odom''\<rparr>
     = \<lparr>ok = False, cmds = [(- turning_velocity wide_reverse (pi / 4), 0)], calls = []\<rparr>
   \<and> tf_getOrigin planar_tf2
        (tf_mul planar_tf2 \<lparr>px = 0, py = 0, pz = 0, pyaw = pi / 4\<rparr> (at_xy (- 1) (- 1)))
     = \<lparr>vx = 0, vy = - sqrt 2, vz = 0\<rparr>"
proof -
  have n: "normalizeAngle (0 + 7 * pi / 4) = - (pi / 4)"
    using pi_gt_zero by (simp add: normalizeAngle_def Let_def)
  have t1: "\<bar>7 * pi / 4\<bar> > angularTolerance wide_reverse"
    using pi_ge_two by (simp add: wide_reverse_def default_config_def)
  have t2: "\<bar>- (pi / 4)\<bar> > angularTolerance wide_reverse"
    using pi_ge_two by (simp add: wide_reverse_def default_config_def)
  have x1: "executeAction planar_tf2 wide_reverse
       \<lparr>ee_tf = frames_coincide,
        ee_rot1 = (frames_coincide,
          [\<lparr>ri_tf = frames_coincide, ri_obstacle_angle = (\<lambda>d. 10), ri_preempt = False\<rparr>]),
        ee_lin = (frames_coincide, 0, []), ee_rot2 = (frames_coincide, [])\<rparr>
       \<lparr>target_pose = at_xy (- 1) (- 1), frame_id = ''odom''\<rparr>
     = \<lparr>ok = False, cmds = [(- turning_velocity wide_reverse (pi / 4), 0)], calls = []\<rparr>"
    using t1
    by (simp add: executeAction_def plan_behind_right execute_path_def rotation_behind_right
          Let_def)
  have x2: "executeAction planar_tf2 wide_reverse
       \<lparr>ee_tf = frames_coincide,
        ee_rot1 = (frames_coincide,
          [\<lparr>ri_tf = frames_coincide, ri_obstacle_angle = (\<lambda>d. 10), ri_preempt = False\<rparr>]),
        ee_lin = (frames_coincide, 0, []), ee_rot2 = (frames_coincide, [])\<rparr>
       \<lparr>target_pose = at_xy (- 1) 1, frame_id = ''odom''\<rparr>
     = \<lparr>ok = False, cmds = [(- turning_velocity wide_reverse (pi / 4), 0)], calls = []\<rparr>"
    using t2
    by (simp add: executeAction_def plan_behind_left execute_path_def rotation_behind_left
          Let_def)
  have g: "tf_getOrigin planar_tf2
        (tf_mul planar_tf2 \<lparr>px = 0, py = 0, pz = 0, pyaw = pi / 4\<rparr> (at_xy (- 1) (- 1)))
     = \<lparr>vx = 0, vy = - sqrt 2, vz = 0\<rparr>"
    by (simp add: planar_tf2_def at_xy_def cos_45 sin_45)
  from plan_behind_right n x1 x2 g show ?thesis by (intro conjI)
qed


end
